theory Spec2Isabelle
  imports Main "HOL-Library.Multiset"
begin

section \<open>The PostgreSQL adapter of the trace store\<close>

text \<open>
  The development follows \<^verbatim>\<open>packages/data/src/db/postgresql/postgresql-adapter.ts\<close>.
  The adapter writes a report of execution traces into six relations and reads them back.
  Its collaborators (\<^verbatim>\<open>./models\<close>, \<^verbatim>\<open>../../types\<close>, \<^verbatim>\<open>../../normalize/operation\<close>,
  \<^verbatim>\<open>../../normalize/trace\<close>, \<^verbatim>\<open>../../helpers\<close>) are imported by the adapter; where a definition
  below stands for one of them, its comment says so.
\<close>

subsection \<open>Inbound data: reports, traces, trace nodes\<close>

record TraceError =
  message :: string
  json :: string

text \<open>
  A trace node as the adapter receives it. The adapter reads \<^verbatim>\<open>trace.entry.errors\<close> of the
  root entry and hands the entry to the normalizer; the root's own field and parent type are
  never read.
\<close>

datatype TraceNode =
  TraceNode (tn_field: string) (tn_parentType: string) (tn_startTime: int) (tn_endTime: int)
    (tn_errors: "TraceError list") (tn_children: "TraceNode list")

text \<open>
  \<^verbatim>\<open>trace.query!\<close> and \<^verbatim>\<open>trace.operationName!\<close> carry a non-null assertion in the adapter:
  both are optional in a trace.
\<close>

record Trace =
  query :: "string option"
  operationName :: "string option"
  trace_startTime :: int
  duration :: int
  parsing :: int
  validation :: int
  execution :: int
  entry :: TraceNode

record Report =
  traces :: "Trace list"

subsection \<open>Normalized trace nodes\<close>

text \<open>
  The adapter reads \<^verbatim>\<open>parentType\<close>, \<^verbatim>\<open>field\<close>, \<^verbatim>\<open>path\<close>, \<^verbatim>\<open>startTime\<close>, \<^verbatim>\<open>endTime\<close> and
  \<^verbatim>\<open>errors\<close> of a normalized node.
\<close>

record NormalizedTraceNode =
  path :: "string list"
  field :: string
  parentType :: string
  startTime :: int
  endTime :: int
  errors :: "TraceError list"

text \<open>
  A JavaScript object with string keys that are not array indices enumerates its keys in
  the order of their first insertion. It is an association list here: \<open>map fst\<close> is
  \<^verbatim>\<open>Object.keys\<close>, \<open>map snd\<close> is \<^verbatim>\<open>Object.values\<close>, \<open>map_of\<close> is the lookup \<^verbatim>\<open>obj[key]\<close>.
\<close>

type_synonym NormalizedTraceNodeMap = "(string \<times> NormalizedTraceNode list) list"

text \<open>The key \<^verbatim>\<open>`${node.parentType}.${node.field}`\<close> of a node.\<close>

definition typeField :: "string \<Rightarrow> string \<Rightarrow> string" where
  "typeField type fieldName = type @ ''.'' @ fieldName"

definition nodeKey :: "NormalizedTraceNode \<Rightarrow> string" where
  "nodeKey node = typeField (parentType node) (field node)"

text \<open>
  Modelled from the spec: \<^verbatim>\<open>normalizeTraceNode\<close> of \<^verbatim>\<open>../../normalize/trace\<close> is not part of
  the adapter's file. Section 4.2 describes it: a full traversal of the nodes below the root
  entry, pre-order with children in source order; every visited node yields its path from
  the root, its owning type and field name, its timing window and its own errors; the map
  keyed by \<^verbatim>\<open>"type.field"\<close> is derived from the same traversal and keeps every occurrence.
  \<open>preorder\<close> is the ordered sequence of that traversal, \<open>collect\<close> is the same traversal
  filling the map: an occurrence is pushed onto the list under its key, a new key is added
  behind the keys already there.
\<close>

definition normalized :: "string list \<Rightarrow> TraceNode \<Rightarrow> NormalizedTraceNode" where
  "normalized parentPath node =
     \<lparr>path = parentPath @ [tn_field node], field = tn_field node,
      parentType = tn_parentType node, startTime = tn_startTime node,
      endTime = tn_endTime node, errors = tn_errors node\<rparr>"

fun preorder :: "string list \<Rightarrow> TraceNode \<Rightarrow> NormalizedTraceNode list"
  and preorders :: "string list \<Rightarrow> TraceNode list \<Rightarrow> NormalizedTraceNode list" where
  "preorder parentPath (TraceNode f pt st et errs cs) =
     normalized parentPath (TraceNode f pt st et errs cs) # preorders (parentPath @ [f]) cs"
| "preorders parentPath [] = []"
| "preorders parentPath (c # cs) = preorder parentPath c @ preorders parentPath cs"

fun push :: "NormalizedTraceNodeMap \<Rightarrow> NormalizedTraceNode \<Rightarrow> NormalizedTraceNodeMap" where
  "push [] node = [(nodeKey node, [node])]"
| "push ((k, occurrences) # m) node =
     (if k = nodeKey node then (k, occurrences @ [node]) # m
      else (k, occurrences) # push m node)"

fun collect :: "string list \<Rightarrow> TraceNode \<Rightarrow> NormalizedTraceNodeMap \<Rightarrow> NormalizedTraceNodeMap"
  and collects :: "string list \<Rightarrow> TraceNode list \<Rightarrow> NormalizedTraceNodeMap \<Rightarrow> NormalizedTraceNodeMap" where
  "collect parentPath (TraceNode f pt st et errs cs) m =
     collects (parentPath @ [f]) cs (push m (normalized parentPath (TraceNode f pt st et errs cs)))"
| "collects parentPath [] m = m"
| "collects parentPath (c # cs) m = collects parentPath cs (collect parentPath c m)"

definition normalizeTraceNode :: "TraceNode \<Rightarrow> NormalizedTraceNodeMap" where
  "normalizeTraceNode root = collects [] (tn_children root) []"

text \<open>
  Modelled from the spec: \<^verbatim>\<open>flatten\<close> of \<^verbatim>\<open>../../helpers\<close> is not part of the adapter's file.
  The adapter applies it to an array of arrays of nodes and to an array of arrays of error
  rows and uses the result as one array: it concatenates.
\<close>

definition flatten :: "'a list list \<Rightarrow> 'a list" where
  "flatten xss = concat xss"

text \<open>\<^verbatim>\<open>const nodes = flatten(Object.values(traceNodeMap))\<close>\<close>

definition nodesOf :: "NormalizedTraceNodeMap \<Rightarrow> NormalizedTraceNode list" where
  "nodesOf traceNodeMap = flatten (map snd traceNodeMap)"

text \<open>The keys of a sequence of nodes, each once, in the order of first occurrence.\<close>

definition firstKeys :: "NormalizedTraceNode list \<Rightarrow> string list" where
  "firstKeys ns = rev (remdups (rev (map nodeKey ns)))"

text \<open>The grouping of a sequence of nodes by key: groups in the order of first occurrence,
  every group in the order of the sequence.\<close>

definition grouped :: "NormalizedTraceNode list \<Rightarrow> NormalizedTraceNodeMap" where
  "grouped ns = map (\<lambda>k. (k, filter (\<lambda>n. nodeKey n = k) ns)) (firstKeys ns)"

subsection \<open>Rows of the six relations\<close>

text \<open>
  The row types of \<^verbatim>\<open>./models\<close> are not part of the adapter's file; the columns are the
  ones the adapter writes and reads. A field trace's \<^verbatim>\<open>fieldId\<close> is the result of the lookup
  \<^verbatim>\<open>fieldIdMap[key]\<close>, which is undefined for a key the map does not have; an error row has
  an owner among \<^verbatim>\<open>operationTraceId\<close> and \<^verbatim>\<open>fieldTraceId\<close>, the other column is not written.
\<close>

record OperationModel =
  o_id :: nat
  o_operation :: "string option"
  o_name :: "string option"
  o_signature :: string

record FieldModel =
  f_id :: nat
  f_type :: string
  f_name :: string

record OperationFieldModel =
  of_fieldId :: nat
  of_operationId :: nat

record OperationTraceModel =
  ot_id :: nat
  ot_operationId :: nat
  ot_startTime :: int
  ot_duration :: int
  ot_parsing :: int
  ot_validation :: int
  ot_execution :: int

record FieldTraceModel =
  ft_id :: nat
  ft_path :: string
  ft_fieldId :: "nat option"
  ft_operationTraceId :: nat
  ft_startTime :: int
  ft_endTime :: int

record ErrorModel =
  e_id :: nat
  e_operationTraceId :: "nat option"
  e_fieldTraceId :: "nat option"
  e_message :: string
  e_json :: string

datatype Tables = Operations | Fields | OperationsFields | OperationTraces | FieldTraces | Errors

subsection \<open>The storage client\<close>

text \<open>
  Modelled from the spec: the knex client and the tables of \<^verbatim>\<open>./models\<close> are not part of the
  adapter's file. Section 6 gives the contract: six relations, insert returning a generated
  identifier, select by natural key. A relation is the list of its rows in the order of
  insertion; rows are never updated or deleted (section 3), so the identifier generated for
  a row is its position, counted from 1; a batch gets its identifiers in the order of the
  batch. A row to insert is a function of the identifier it will get. \<open>issued\<close> records every
  query the adapter hands to the client, in order.
\<close>

datatype Query = Select Tables | Insert Tables

record Store =
  operations :: "OperationModel list"
  fieldRows :: "FieldModel list"
  operationsFields :: "OperationFieldModel list"
  operationTraces :: "OperationTraceModel list"
  fieldTraces :: "FieldTraceModel list"
  errorRows :: "ErrorModel list"
  issued :: "Query list"

definition returning :: "'r list \<Rightarrow> 'b list \<Rightarrow> nat list" where
  "returning rows batch = map (\<lambda>j. Suc (length rows + j)) [0..<length batch]"

definition stored :: "(nat \<Rightarrow> 'r) list \<Rightarrow> nat list \<Rightarrow> 'r list" where
  "stored batch ids = map (\<lambda>(row, i). row i) (zip batch ids)"

definition selectOperations :: "string \<Rightarrow> Store \<Rightarrow> OperationModel list \<times> Store" where
  "selectOperations signature db =
     (filter (\<lambda>r. o_signature r = signature) (operations db),
      db\<lparr>issued := issued db @ [Select Operations]\<rparr>)"

definition insertOperation :: "(nat \<Rightarrow> OperationModel) \<Rightarrow> Store \<Rightarrow> nat \<times> Store" where
  "insertOperation row db =
     (let newId = Suc (length (operations db))
      in (newId, db\<lparr>operations := operations db @ [row newId],
                     issued := issued db @ [Insert Operations]\<rparr>))"

definition selectFields :: "string \<Rightarrow> string \<Rightarrow> Store \<Rightarrow> FieldModel list \<times> Store" where
  "selectFields type name db =
     (filter (\<lambda>r. f_type r = type \<and> f_name r = name) (fieldRows db),
      db\<lparr>issued := issued db @ [Select Fields]\<rparr>)"

definition insertField :: "(nat \<Rightarrow> FieldModel) \<Rightarrow> Store \<Rightarrow> nat \<times> Store" where
  "insertField row db =
     (let newId = Suc (length (fieldRows db))
      in (newId, db\<lparr>fieldRows := fieldRows db @ [row newId],
                     issued := issued db @ [Insert Fields]\<rparr>))"

definition insertOperationsFields :: "OperationFieldModel list \<Rightarrow> Store \<Rightarrow> Store" where
  "insertOperationsFields batch db =
     db\<lparr>operationsFields := operationsFields db @ batch,
        issued := issued db @ [Insert OperationsFields]\<rparr>"

definition insertOperationTrace :: "(nat \<Rightarrow> OperationTraceModel) \<Rightarrow> Store \<Rightarrow> nat \<times> Store" where
  "insertOperationTrace row db =
     (let newId = Suc (length (operationTraces db))
      in (newId, db\<lparr>operationTraces := operationTraces db @ [row newId],
                     issued := issued db @ [Insert OperationTraces]\<rparr>))"

definition insertFieldTraces :: "(nat \<Rightarrow> FieldTraceModel) list \<Rightarrow> Store \<Rightarrow> nat list \<times> Store" where
  "insertFieldTraces batch db =
     (let ids = returning (fieldTraces db) batch
      in (ids, db\<lparr>fieldTraces := fieldTraces db @ stored batch ids,
                   issued := issued db @ [Insert FieldTraces]\<rparr>))"

definition insertErrors :: "(nat \<Rightarrow> ErrorModel) list \<Rightarrow> Store \<Rightarrow> Store" where
  "insertErrors batch db =
     db\<lparr>errorRows := errorRows db @ stored batch (returning (errorRows db) batch),
        issued := issued db @ [Insert Errors]\<rparr>"

text \<open>A store with six empty relations and no query issued yet.\<close>

definition emptyStore :: Store where
  "emptyStore = \<lparr>operations = [], fieldRows = [], operationsFields = [], operationTraces = [],
     fieldTraces = [], errorRows = [], issued = []\<rparr>"

subsection \<open>JavaScript helpers the adapter uses\<close>

text \<open>\<^verbatim>\<open>s.split('.')\<close>: the pieces between the dots; never an empty array.\<close>

fun split_dot :: "string \<Rightarrow> string list" where
  "split_dot [] = [[]]"
| "split_dot (c # cs) =
     (if c = CHR ''.'' then [] # split_dot cs
      else (case split_dot cs of [] \<Rightarrow> [[c]] | w # ws \<Rightarrow> (c # w) # ws))"

text \<open>\<^verbatim>\<open>path.join('.')\<close>\<close>

fun join_dot :: "string list \<Rightarrow> string" where
  "join_dot [] = []"
| "join_dot [s] = s"
| "join_dot (s # t # ss) = s @ ''.'' @ join_dot (t # ss)"

text \<open>\<^verbatim>\<open>xs[i]\<close> is undefined out of range.\<close>

definition nth_opt :: "'a list \<Rightarrow> nat \<Rightarrow> 'a option" where
  "nth_opt xs i = (if i < length xs then Some (xs ! i) else None)"

text \<open>The elements with their indices, as the callback of \<^verbatim>\<open>map((x, i) => ...)\<close> gets them.\<close>

definition indexed :: "'a list \<Rightarrow> ('a \<times> nat) list" where
  "indexed xs = zip xs [0..<length xs]"

text \<open>\<^verbatim>\<open>{...acc, [key]: value}\<close>: a key already there keeps its place and gets the value, a new
  key goes behind the others.\<close>

fun assign :: "(string \<times> 'v) list \<Rightarrow> string \<Rightarrow> 'v \<Rightarrow> (string \<times> 'v) list" where
  "assign [] key v = [(key, v)]"
| "assign ((k, w) # acc) key v = (if k = key then (k, v) # acc else (k, w) # assign acc key v)"

subsection \<open>The adapter\<close>

text \<open>
  \<^verbatim>\<open>new Error('Remember to init()')\<close> is \<open>Error ''Remember to init()''\<close>; \<open>SignatureFailure\<close> is
  the failure of the signature computation.
\<close>

datatype error = Error string | SignatureFailure

text \<open>
  Modelled from the spec: \<^verbatim>\<open>operationSignature\<close> of \<^verbatim>\<open>../../normalize/operation\<close> is not part
  of the adapter's file. Section 4.1: the signature is a pure function of the query document
  and the operation name; section 7 (b): for a trace with a missing query or operation name
  the signature computation fails. The function \<open>sg\<close> of a present document and name is a
  parameter.
\<close>

definition operationSignature ::
  "(string \<Rightarrow> string \<Rightarrow> string) \<Rightarrow> string option \<Rightarrow> string option \<Rightarrow> error + string" where
  "operationSignature sg document opName =
     (case document of None \<Rightarrow> Inl SignatureFailure
      | Some d \<Rightarrow> (case opName of None \<Rightarrow> Inl SignatureFailure | Some n \<Rightarrow> Inr (sg d n)))"

text \<open>
  The adapter's state is its private \<^verbatim>\<open>_client\<close>: undefined until \<^verbatim>\<open>init()\<close>, the client and
  its store afterwards. The getter \<^verbatim>\<open>client\<close> throws on an undefined \<^verbatim>\<open>_client\<close>.
\<close>

type_synonym Adapter = "Store option"

definition client :: "Adapter \<Rightarrow> error + Store" where
  "client adapter =
     (case adapter of None \<Rightarrow> Inl (Error ''Remember to init()'') | Some db \<Rightarrow> Inr db)"

text \<open>
  \<^verbatim>\<open>Object.keys(traceNodeMap).map(i => i.split('.') as [string, string])\<close>, read through the
  pattern \<^verbatim>\<open>[type, field]\<close>: the first two pieces of the key, whatever comes behind them. Every
  key of the normalizer has a dot and so at least two pieces (lemma \<open>keys_have_dot\<close>). For a
  key with no dot the source leaves \<^verbatim>\<open>field\<close> undefined and hands \<^verbatim>\<open>name: undefined\<close> to the
  lookup; no write gets there, and the first two cases below only make the function total.
\<close>

definition typeFieldPair :: "string \<Rightarrow> string \<times> string" where
  "typeFieldPair i =
     (case split_dot i of [] \<Rightarrow> ([], []) | [type] \<Rightarrow> (type, [])
      | type # fieldName # _ \<Rightarrow> (type, fieldName))"

text \<open>
  \<^verbatim>\<open>Promise.all(typeFieldPairs.map(async ([type, field]) => ...))\<close>: \<^verbatim>\<open>map\<close> calls the
  callbacks one after the other, and each runs up to its first \<^verbatim>\<open>await\<close>, the select of its
  pair. So all the selects are issued, in the order of the pairs, before the result of the
  first is back. Each callback then goes on with the result of its own select: it returns the
  id of the first row found, or inserts the field if there was none. The store answers in the
  order in which the queries were issued, so the inserts come in the order of the pairs.
\<close>

fun selectAllFields :: "(string \<times> string) list \<Rightarrow> Store \<Rightarrow> FieldModel list list \<times> Store" where
  "selectAllFields [] db = ([], db)"
| "selectAllFields ((type, fieldName) # pairs) db =
     (let (fieldResults, db1) = selectFields type fieldName db;
          (rest, db2) = selectAllFields pairs db1
      in (fieldResults # rest, db2))"

fun insertMissingFields ::
  "((string \<times> string) \<times> FieldModel list) list \<Rightarrow> Store \<Rightarrow> nat list \<times> Store" where
  "insertMissingFields [] db = ([], db)"
| "insertMissingFields (((type, fieldName), fieldResults) # rest) db =
     (let (i, db1) =
            (case fieldResults of
               fieldResult # _ \<Rightarrow> (f_id fieldResult, db)
             | [] \<Rightarrow> insertField (\<lambda>i. \<lparr>f_id = i, f_type = type, f_name = fieldName\<rparr>) db);
          (ids, db2) = insertMissingFields rest db1
      in (i # ids, db2))"

definition ensureFieldIds :: "(string \<times> string) list \<Rightarrow> Store \<Rightarrow> nat list \<times> Store" where
  "ensureFieldIds typeFieldPairs db =
     (let (fieldResults, db1) = selectAllFields typeFieldPairs db
      in insertMissingFields (zip typeFieldPairs fieldResults) db1)"

text \<open>The final \<^verbatim>\<open>reduce\<close> pairs \<^verbatim>\<open>typeFieldPairs[i]\<close> with \<^verbatim>\<open>ids[i]\<close>; both arrays have the
  same length.\<close>

definition ensureFieldIdMap ::
  "NormalizedTraceNodeMap \<Rightarrow> Store \<Rightarrow> (string \<times> nat) list \<times> Store" where
  "ensureFieldIdMap traceNodeMap db =
     (let typeFieldPairs = map typeFieldPair (map fst traceNodeMap);
          (ids, db1) = ensureFieldIds typeFieldPairs db
      in (foldl (\<lambda>acc ((type, fieldName), i). assign acc (typeField type fieldName) i)
            [] (zip typeFieldPairs ids),
          db1))"

text \<open>The body of \<^verbatim>\<open>writeTrace\<close> from the first use of the client on.\<close>

definition writeTraceOn :: "string \<Rightarrow> Trace \<Rightarrow> Store \<Rightarrow> Store" where
  "writeTraceOn signature trace db0 =
     (let (found, db1) = selectOperations signature db0;
          existingOperation = (case found of [] \<Rightarrow> None | r # _ \<Rightarrow> Some r);
          (operationId, db2) =
            (case existingOperation of
               Some r \<Rightarrow> (o_id r, db1)
             | None \<Rightarrow>
                 insertOperation (\<lambda>i. \<lparr>o_id = i, o_operation = query trace,
                   o_name = operationName trace, o_signature = signature\<rparr>) db1);
          traceNodeMap = normalizeTraceNode (entry trace);
          (fieldIdMap, db3) = ensureFieldIdMap traceNodeMap db2;
          db4 =
            (if existingOperation = None
             then insertOperationsFields
                    (map (\<lambda>fieldId. \<lparr>of_fieldId = fieldId, of_operationId = operationId\<rparr>)
                       (map snd fieldIdMap)) db3
             else db3);
          (operationTraceId, db5) =
            insertOperationTrace (\<lambda>i. \<lparr>ot_id = i, ot_operationId = operationId,
              ot_startTime = trace_startTime trace, ot_duration = duration trace,
              ot_parsing = parsing trace, ot_validation = validation trace,
              ot_execution = execution trace\<rparr>) db4;
          nodes = flatten (map snd traceNodeMap);
          (fieldTraceIds, db6) =
            insertFieldTraces
              (map (\<lambda>node i. \<lparr>ft_id = i, ft_path = join_dot (path node),
                       ft_fieldId = map_of fieldIdMap (typeField (parentType node) (field node)),
                       ft_operationTraceId = operationTraceId,
                       ft_startTime = startTime node, ft_endTime = endTime node\<rparr>) nodes) db5;
          db7 =
            (if tn_errors (entry trace) \<noteq> []
             then insertErrors
                    (map (\<lambda>err i. \<lparr>e_id = i, e_operationTraceId = Some operationTraceId,
                            e_fieldTraceId = None, e_message = message err, e_json = json err\<rparr>)
                       (tn_errors (entry trace))) db6
             else db6)
      in insertErrors
           (flatten
              (map (\<lambda>(node, i).
                      let fieldTraceId = nth_opt fieldTraceIds i
                      in map (\<lambda>err j. \<lparr>e_id = j, e_operationTraceId = None,
                                e_fieldTraceId = fieldTraceId, e_message = message err,
                                e_json = json err\<rparr>) (errors node))
                 (indexed (filter (\<lambda>node. errors node \<noteq> []) nodes)))) db7)"

text \<open>
  \<^verbatim>\<open>writeTrace\<close>: the signature is computed first, then the getter \<^verbatim>\<open>client\<close> is read for
  the first query. The result is the outcome of the promise and the adapter afterwards.
\<close>

definition writeTrace ::
  "(string \<Rightarrow> string \<Rightarrow> string) \<Rightarrow> Adapter \<Rightarrow> Trace \<Rightarrow> (error + unit) \<times> Adapter" where
  "writeTrace sg adapter trace =
     (case operationSignature sg (query trace) (operationName trace) of
        Inl e \<Rightarrow> (Inl e, adapter)
      | Inr signature \<Rightarrow>
          (case client adapter of
             Inl e \<Rightarrow> (Inl e, adapter)
           | Inr db \<Rightarrow> (Inr (), Some (writeTraceOn signature trace db))))"

subsection \<open>The writes of a report, started together\<close>

text \<open>
  \<^verbatim>\<open>report.traces.map(trace => this.writeTrace(trace))\<close> calls \<^verbatim>\<open>writeTrace\<close> for every trace
  before any of the writes goes on: a call runs up to its first \<^verbatim>\<open>await\<close> and returns a
  promise. From then on a write goes on whenever the queries it waits for are answered. The
  store answers the queries in the order in which they were issued, so the writes take turns
  in the order of the report: in every turn a write takes the results it waited for, runs up
  to its next \<^verbatim>\<open>await\<close> and issues the queries there.

  A \<open>Write\<close> is a write of a trace at an \<^verbatim>\<open>await\<close>, with the values it has got so far and the
  result it waits for: the rows of the select on Operations (line 97), the id of the
  inserted operation (110), the rows of the selects on Fields of all the callbacks (219), the
  ids after their inserts (232), and the inserts into OperationsFields (131), OperationTraces
  (143), FieldTraces (160) and Errors (179, 192).
\<close>

datatype Write =
    AwaitOperationSelect string Trace "OperationModel list"
  | AwaitOperationInsert Trace nat
  | AwaitFieldSelects Trace "OperationModel option" nat "FieldModel list list"
  | AwaitFieldInserts Trace "OperationModel option" nat "nat list"
  | AwaitOperationsFields Trace nat "(string \<times> nat) list"
  | AwaitOperationTrace Trace "(string \<times> nat) list" nat
  | AwaitFieldTraces Trace nat "nat list"
  | AwaitOperationErrors Trace "nat list"
  | AwaitFieldErrors

text \<open>
  The pieces of \<^verbatim>\<open>writeTrace\<close> between two awaits, last first. Each runs up to the next
  \<^verbatim>\<open>await\<close>, issues the query there and gives the write that waits for it; a guard that is
  not taken leads on to the next query without a turn in between, and so do an
  \<^verbatim>\<open>ensureFieldIdMap\<close> without pairs and one that has found every field.
\<close>

definition thenFieldErrors :: "Trace \<Rightarrow> nat list \<Rightarrow> Store \<Rightarrow> Write option \<times> Store" where
  "thenFieldErrors trace fieldTraceIds db =
     (let nodes = flatten (map snd (normalizeTraceNode (entry trace)))
      in (Some AwaitFieldErrors,
          insertErrors
            (flatten
               (map (\<lambda>(node, i).
                       let fieldTraceId = nth_opt fieldTraceIds i
                       in map (\<lambda>err j. \<lparr>e_id = j, e_operationTraceId = None,
                                 e_fieldTraceId = fieldTraceId, e_message = message err,
                                 e_json = json err\<rparr>) (errors node))
                  (indexed (filter (\<lambda>node. errors node \<noteq> []) nodes)))) db))"

definition thenOperationErrors ::
  "Trace \<Rightarrow> nat \<Rightarrow> nat list \<Rightarrow> Store \<Rightarrow> Write option \<times> Store" where
  "thenOperationErrors trace operationTraceId fieldTraceIds db =
     (if tn_errors (entry trace) \<noteq> []
      then (Some (AwaitOperationErrors trace fieldTraceIds),
            insertErrors
              (map (\<lambda>err i. \<lparr>e_id = i, e_operationTraceId = Some operationTraceId,
                      e_fieldTraceId = None, e_message = message err, e_json = json err\<rparr>)
                 (tn_errors (entry trace))) db)
      else thenFieldErrors trace fieldTraceIds db)"

definition thenFieldTraces ::
  "Trace \<Rightarrow> (string \<times> nat) list \<Rightarrow> nat \<Rightarrow> Store \<Rightarrow> Write option \<times> Store" where
  "thenFieldTraces trace fieldIdMap operationTraceId db =
     (let nodes = flatten (map snd (normalizeTraceNode (entry trace)));
          (fieldTraceIds, db1) =
            insertFieldTraces
              (map (\<lambda>node i. \<lparr>ft_id = i, ft_path = join_dot (path node),
                       ft_fieldId = map_of fieldIdMap (typeField (parentType node) (field node)),
                       ft_operationTraceId = operationTraceId,
                       ft_startTime = startTime node, ft_endTime = endTime node\<rparr>) nodes) db
      in (Some (AwaitFieldTraces trace operationTraceId fieldTraceIds), db1))"

definition thenOperationTrace ::
  "Trace \<Rightarrow> nat \<Rightarrow> (string \<times> nat) list \<Rightarrow> Store \<Rightarrow> Write option \<times> Store" where
  "thenOperationTrace trace operationId fieldIdMap db =
     (let (operationTraceId, db1) =
            insertOperationTrace (\<lambda>i. \<lparr>ot_id = i, ot_operationId = operationId,
              ot_startTime = trace_startTime trace, ot_duration = duration trace,
              ot_parsing = parsing trace, ot_validation = validation trace,
              ot_execution = execution trace\<rparr>) db
      in (Some (AwaitOperationTrace trace fieldIdMap operationTraceId), db1))"

definition thenOperationsFields ::
  "Trace \<Rightarrow> OperationModel option \<Rightarrow> nat \<Rightarrow> nat list \<Rightarrow> Store \<Rightarrow> Write option \<times> Store" where
  "thenOperationsFields trace existingOperation operationId ids db =
     (let typeFieldPairs = map typeFieldPair (map fst (normalizeTraceNode (entry trace)));
          fieldIdMap =
            foldl (\<lambda>acc ((type, fieldName), i). assign acc (typeField type fieldName) i)
              [] (zip typeFieldPairs ids)
      in if existingOperation = None
         then (Some (AwaitOperationsFields trace operationId fieldIdMap),
               insertOperationsFields
                 (map (\<lambda>fieldId. \<lparr>of_fieldId = fieldId, of_operationId = operationId\<rparr>)
                    (map snd fieldIdMap)) db)
         else thenOperationTrace trace operationId fieldIdMap db)"

definition thenFieldInserts ::
  "Trace \<Rightarrow> OperationModel option \<Rightarrow> nat \<Rightarrow> FieldModel list list \<Rightarrow> Store \<Rightarrow>
   Write option \<times> Store" where
  "thenFieldInserts trace existingOperation operationId fieldResults db =
     (let typeFieldPairs = map typeFieldPair (map fst (normalizeTraceNode (entry trace)));
          (ids, db1) = insertMissingFields (zip typeFieldPairs fieldResults) db
      in if [] \<in> set fieldResults
         then (Some (AwaitFieldInserts trace existingOperation operationId ids), db1)
         else thenOperationsFields trace existingOperation operationId ids db1)"

definition thenFieldSelects ::
  "Trace \<Rightarrow> OperationModel option \<Rightarrow> nat \<Rightarrow> Store \<Rightarrow> Write option \<times> Store" where
  "thenFieldSelects trace existingOperation operationId db =
     (let typeFieldPairs = map typeFieldPair (map fst (normalizeTraceNode (entry trace)))
      in if typeFieldPairs = []
         then thenOperationsFields trace existingOperation operationId [] db
         else (let (fieldResults, db1) = selectAllFields typeFieldPairs db
               in (Some (AwaitFieldSelects trace existingOperation operationId fieldResults),
                   db1)))"

text \<open>A write goes on with the result it waited for; \<open>None\<close> is the write that has
  returned.\<close>

fun resume :: "Write \<Rightarrow> Store \<Rightarrow> Write option \<times> Store" where
  "resume (AwaitOperationSelect signature trace found) db =
     (case found of
        existingOperation # _ \<Rightarrow>
          thenFieldSelects trace (Some existingOperation) (o_id existingOperation) db
      | [] \<Rightarrow>
          (let (newOperationId, db1) =
                 insertOperation (\<lambda>i. \<lparr>o_id = i, o_operation = query trace,
                   o_name = operationName trace, o_signature = signature\<rparr>) db
           in (Some (AwaitOperationInsert trace newOperationId), db1)))"
| "resume (AwaitOperationInsert trace newOperationId) db =
     thenFieldSelects trace None newOperationId db"
| "resume (AwaitFieldSelects trace existingOperation operationId fieldResults) db =
     thenFieldInserts trace existingOperation operationId fieldResults db"
| "resume (AwaitFieldInserts trace existingOperation operationId ids) db =
     thenOperationsFields trace existingOperation operationId ids db"
| "resume (AwaitOperationsFields trace operationId fieldIdMap) db =
     thenOperationTrace trace operationId fieldIdMap db"
| "resume (AwaitOperationTrace trace fieldIdMap operationTraceId) db =
     thenFieldTraces trace fieldIdMap operationTraceId db"
| "resume (AwaitFieldTraces trace operationTraceId fieldTraceIds) db =
     thenOperationErrors trace operationTraceId fieldTraceIds db"
| "resume (AwaitOperationErrors trace fieldTraceIds) db =
     thenFieldErrors trace fieldTraceIds db"
| "resume AwaitFieldErrors db = (None, db)"

text \<open>One turn of every write that has not returned, in the order of the report.\<close>

fun resumeAll :: "Write list \<Rightarrow> Store \<Rightarrow> Write list \<times> Store" where
  "resumeAll [] db = ([], db)"
| "resumeAll (w # ws) db =
     (let (next, db1) = resume w db;
          (rest, db2) = resumeAll ws db1
      in ((case next of None \<Rightarrow> rest | Some w' \<Rightarrow> w' # rest), db2))"

text \<open>The number of awaits a write has before it at most.\<close>

fun awaits :: "Write \<Rightarrow> nat" where
  "awaits (AwaitOperationSelect signature trace found) = 9"
| "awaits (AwaitOperationInsert trace newOperationId) = 8"
| "awaits (AwaitFieldSelects trace existingOperation operationId fieldResults) = 7"
| "awaits (AwaitFieldInserts trace existingOperation operationId ids) = 6"
| "awaits (AwaitOperationsFields trace operationId fieldIdMap) = 5"
| "awaits (AwaitOperationTrace trace fieldIdMap operationTraceId) = 4"
| "awaits (AwaitFieldTraces trace operationTraceId fieldTraceIds) = 3"
| "awaits (AwaitOperationErrors trace fieldTraceIds) = 2"
| "awaits AwaitFieldErrors = 1"

text \<open>The turns go on until every write has returned.\<close>

function settle :: "Write list \<Rightarrow> Store \<Rightarrow> Store" where
  "settle [] db = db"
| "settle (w # ws) db = settle (fst (resumeAll (w # ws) db)) (snd (resumeAll (w # ws) db))"
  by pat_completeness auto
termination
proof (relation "measure (\<lambda>(ws, db). sum_list (map awaits ws))")
  show "wf (measure (\<lambda>(ws, db). sum_list (map awaits ws)))" by simp
next
  fix w ws db
  have step: "(case fst (resume w db) of None \<Rightarrow> 0 | Some w' \<Rightarrow> awaits w') < awaits w" for w db
    by (cases w)
      (simp_all add: thenFieldSelects_def thenFieldInserts_def thenOperationsFields_def
        thenOperationTrace_def thenFieldTraces_def thenOperationErrors_def thenFieldErrors_def
        split_def Let_def split: list.splits)
  have all: "sum_list (map awaits (fst (resumeAll ws db))) \<le> sum_list (map awaits ws)" for ws db
  proof (induction ws arbitrary: db)
    case Nil
    show ?case by simp
  next
    case (Cons v vs)
    from step [of v db] Cons.IH [of "snd (resume v db)"] show ?case
      by (simp add: split_def Let_def split: option.splits)
  qed
  from step [of w db] all [of ws "snd (resume w db)"]
  have "sum_list (map awaits (fst (resumeAll (w # ws) db))) < sum_list (map awaits (w # ws))"
    by (simp add: split_def Let_def split: option.splits)
  then show "((fst (resumeAll (w # ws) db), snd (resumeAll (w # ws) db)), w # ws, db)
      \<in> measure (\<lambda>(ws, db). sum_list (map awaits ws))"
    by (simp add: split_def)
qed

text \<open>
  The call of \<^verbatim>\<open>writeTrace\<close> up to its first \<^verbatim>\<open>await\<close>: the signature is computed, the getter
  \<^verbatim>\<open>client\<close> is read and the select on Operations is issued. A call that throws before gives
  a rejected promise.
\<close>

definition startWrite ::
  "(string \<Rightarrow> string \<Rightarrow> string) \<Rightarrow> Adapter \<Rightarrow> Trace \<Rightarrow> (error + Write) \<times> Adapter" where
  "startWrite sg adapter trace =
     (case operationSignature sg (query trace) (operationName trace) of
        Inl e \<Rightarrow> (Inl e, adapter)
      | Inr signature \<Rightarrow>
          (case client adapter of
             Inl e \<Rightarrow> (Inl e, adapter)
           | Inr db \<Rightarrow>
               (let (found, db1) = selectOperations signature db
                in (Inr (AwaitOperationSelect signature trace found), Some db1))))"

fun startWrites ::
  "(string \<Rightarrow> string \<Rightarrow> string) \<Rightarrow> Adapter \<Rightarrow> Trace list \<Rightarrow> (error + Write) list \<times> Adapter" where
  "startWrites sg adapter [] = ([], adapter)"
| "startWrites sg adapter (trace # rest) =
     (let (started, adapter1) = startWrite sg adapter trace;
          (others, adapter2) = startWrites sg adapter1 rest
      in (started # others, adapter2))"

text \<open>\<^verbatim>\<open>await Promise.all(...)\<close> fulfils when every promise has fulfilled and rejects with the
  first rejection. A write is rejected only when it is called (there is no failing query
  here), so the first rejection is that of the first trace of the report whose call
  throws.\<close>

fun awaitAll :: "(error + 'a) list \<Rightarrow> error + unit" where
  "awaitAll [] = Inr ()"
| "awaitAll (Inl e # promises) = Inl e"
| "awaitAll (Inr _ # promises) = awaitAll promises"

fun pending :: "(error + Write) list \<Rightarrow> Write list" where
  "pending [] = []"
| "pending (Inl e # promises) = pending promises"
| "pending (Inr w # promises) = w # pending promises"

text \<open>\<^verbatim>\<open>writeReport\<close>: the outcome of \<^verbatim>\<open>Promise.all\<close>, and the adapter when every write that
  was started has returned.\<close>

definition writeReport ::
  "(string \<Rightarrow> string \<Rightarrow> string) \<Rightarrow> Adapter \<Rightarrow> Report \<Rightarrow> (error + unit) \<times> Adapter" where
  "writeReport sg adapter report =
     (let (promises, adapter1) = startWrites sg adapter (traces report)
      in (awaitAll promises, map_option (settle (pending promises)) adapter1))"

text \<open>The readers: \<^verbatim>\<open>this.client(table).select('*')\<close>.\<close>

definition readFields :: "Adapter \<Rightarrow> (error + FieldModel list) \<times> Adapter" where
  "readFields adapter =
     (case client adapter of Inl e \<Rightarrow> (Inl e, adapter)
      | Inr db \<Rightarrow> (Inr (fieldRows db), Some (db\<lparr>issued := issued db @ [Select Fields]\<rparr>)))"

definition readOperations :: "Adapter \<Rightarrow> (error + OperationModel list) \<times> Adapter" where
  "readOperations adapter =
     (case client adapter of Inl e \<Rightarrow> (Inl e, adapter)
      | Inr db \<Rightarrow> (Inr (operations db), Some (db\<lparr>issued := issued db @ [Select Operations]\<rparr>)))"

definition readOperationTraces :: "Adapter \<Rightarrow> (error + OperationTraceModel list) \<times> Adapter" where
  "readOperationTraces adapter =
     (case client adapter of Inl e \<Rightarrow> (Inl e, adapter)
      | Inr db \<Rightarrow>
          (Inr (operationTraces db), Some (db\<lparr>issued := issued db @ [Select OperationTraces]\<rparr>)))"

definition readFieldTraces :: "Adapter \<Rightarrow> (error + FieldTraceModel list) \<times> Adapter" where
  "readFieldTraces adapter =
     (case client adapter of Inl e \<Rightarrow> (Inl e, adapter)
      | Inr db \<Rightarrow> (Inr (fieldTraces db), Some (db\<lparr>issued := issued db @ [Select FieldTraces]\<rparr>)))"

definition readErrors :: "Adapter \<Rightarrow> (error + ErrorModel list) \<times> Adapter" where
  "readErrors adapter =
     (case client adapter of Inl e \<Rightarrow> (Inl e, adapter)
      | Inr db \<Rightarrow> (Inr (errorRows db), Some (db\<lparr>issued := issued db @ [Select Errors]\<rparr>)))"

subsection \<open>Notions used to state the properties\<close>

text \<open>The operation id a write resolves a signature to on a store: the id of the first row
  with the signature, or the id the store generates for the row the write inserts.\<close>

definition operationIdOf :: "string \<Rightarrow> Store \<Rightarrow> nat" where
  "operationIdOf signature db =
     (case filter (\<lambda>r. o_signature r = signature) (operations db) of
        [] \<Rightarrow> Suc (length (operations db)) | r # _ \<Rightarrow> o_id r)"








text \<open>The two batches of error rows a write inserts, as functions of what they are built
  from: the rows of the nodes from the flat node sequence and the ids returned for the field
  traces, the rows of the root entry from its errors and the id of the operation trace.\<close>

definition nodeErrorBatch :: "NormalizedTraceNode list \<Rightarrow> nat list \<Rightarrow> (nat \<Rightarrow> ErrorModel) list" where
  "nodeErrorBatch nodes fieldTraceIds =
     flatten
       (map (\<lambda>(node, i).
               let fieldTraceId = nth_opt fieldTraceIds i
               in map (\<lambda>err j. \<lparr>e_id = j, e_operationTraceId = None,
                         e_fieldTraceId = fieldTraceId, e_message = message err,
                         e_json = json err\<rparr>) (errors node))
          (indexed (filter (\<lambda>node. errors node \<noteq> []) nodes)))"

definition rootErrorBatch :: "TraceError list \<Rightarrow> nat \<Rightarrow> (nat \<Rightarrow> ErrorModel) list" where
  "rootErrorBatch errs operationTraceId =
     map (\<lambda>err i. \<lparr>e_id = i, e_operationTraceId = Some operationTraceId,
            e_fieldTraceId = None, e_message = message err, e_json = json err\<rparr>) errs"

text \<open>The store when a write that goes on alone, with no other write taking turns, has
  returned.\<close>

definition finish :: "Write option \<times> Store \<Rightarrow> Store" where
  "finish r = (case r of (None, db) \<Rightarrow> db | (Some w, db) \<Rightarrow> settle [w] db)"

text \<open>The rest of \<^verbatim>\<open>writeTrace\<close> from the field id map on (lines 128 to 208), when the write
  goes on alone.\<close>

definition fromFieldIdMap ::
  "Trace \<Rightarrow> OperationModel option \<Rightarrow> nat \<Rightarrow> (string \<times> nat) list \<Rightarrow> Store \<Rightarrow> Store" where
  "fromFieldIdMap t existingOperation operationId fieldIdMap db3 =
   (let db4 =
            (if existingOperation = None
             then insertOperationsFields
                    (map (\<lambda>fieldId. \<lparr>of_fieldId = fieldId, of_operationId = operationId\<rparr>)
                       (map snd fieldIdMap)) db3
             else db3);
        (otid, db0) =
            insertOperationTrace (\<lambda>i. \<lparr>ot_id = i, ot_operationId = operationId,
              ot_startTime = trace_startTime t, ot_duration = duration t,
              ot_parsing = parsing t, ot_validation = validation t,
              ot_execution = execution t\<rparr>) db4;
        nodes = nodesOf (normalizeTraceNode (entry t));
        (fieldTraceIds, db1) =
            insertFieldTraces
              (map (\<lambda>node i. \<lparr>ft_id = i, ft_path = join_dot (path node),
                       ft_fieldId = map_of fieldIdMap (typeField (parentType node) (field node)),
                       ft_operationTraceId = otid,
                       ft_startTime = startTime node, ft_endTime = endTime node\<rparr>) nodes) db0
    in insertErrors (nodeErrorBatch nodes fieldTraceIds)
     (if tn_errors (entry t) \<noteq> [] then insertErrors (rootErrorBatch (tn_errors (entry t)) otid) db1
      else db1))"

subsection \<open>Example traces\<close>

text \<open>A node without children, and a trace with operation name \<^verbatim>\<open>Q\<close> around a root entry.\<close>

definition leafNode :: "string \<Rightarrow> string \<Rightarrow> TraceError list \<Rightarrow> TraceNode" where
  "leafNode type fieldName errs = TraceNode fieldName type 0 1 errs []"

definition traceOf :: "string option \<Rightarrow> TraceError list \<Rightarrow> TraceNode list \<Rightarrow> Trace" where
  "traceOf document errs children =
     \<lparr>query = document, operationName = Some ''Q'', trace_startTime = 0, duration = 5,
      parsing = 1, validation = 1, execution = 3, entry = TraceNode [] [] 0 5 errs children\<rparr>"

text \<open>Two fields of the root type, each with the child \<^verbatim>\<open>X.n\<close>.\<close>

definition interleavedTrace :: Trace where
  "interleavedTrace = traceOf (Some ''query Q { a { n } b { n } }'') []
     [TraceNode ''a'' ''Query'' 0 2 [] [leafNode ''X'' ''n'' []],
      TraceNode ''b'' ''Query'' 2 4 [] [leafNode ''X'' ''n'' []]]"

text \<open>A trace without a query.\<close>

definition unsignedTrace :: Trace where
  "unsignedTrace = traceOf None [] [leafNode ''Query'' ''a'' []]"

text \<open>The scenario of section 8: \<^verbatim>\<open>query Q { user { name } }\<close>.\<close>

definition userTrace :: Trace where
  "userTrace = traceOf (Some ''query Q { user { name } }'') []
     [TraceNode ''user'' ''Query'' 0 4 [] [leafNode ''User'' ''name'' []]]"

text \<open>Two fields of the root type; the root entry and the second field carry an error.\<close>

definition erroredTrace :: Trace where
  "erroredTrace = traceOf (Some ''query Q { a b }'') [\<lparr>message = ''root failed'', json = ''{}''\<rparr>]
     [leafNode ''Query'' ''a'' [],
      leafNode ''Query'' ''b'' [\<lparr>message = ''b failed'', json = ''{}''\<rparr>]]"

text \<open>A second trace of the operation of \<open>userTrace\<close> (the same query and operation name)
  that visits a field the first does not.\<close>

definition emailTrace :: Trace where
  "emailTrace = traceOf (Some ''query Q { user { name } }'') []
     [TraceNode ''user'' ''Query'' 0 4 [] [leafNode ''User'' ''email'' []]]"


text \<open>Two fields of type \<^verbatim>\<open>A\<close> whose names have a dot.\<close>

definition dottedTrace :: Trace where
  "dottedTrace = traceOf (Some ''query Q { x y }'') []
     [leafNode ''A'' ''b.c'' [], leafNode ''A'' ''b.d'' []]"

subsection \<open>The traversal and the map\<close>

lemma collect_foldl:
  "collect p t m = foldl push m (preorder p t)"
  "collects p ts m = foldl push m (preorders p ts)"
  by (induction p t m and p ts m rule: collect_collects.induct) simp_all

lemma firstKeys_snoc:
  "firstKeys (ns @ [n]) =
     (if nodeKey n \<in> set (firstKeys ns) then firstKeys ns else firstKeys ns @ [nodeKey n])"
  by (simp add: firstKeys_def)

lemma distinct_firstKeys: "distinct (firstKeys ns)"
  by (simp add: firstKeys_def)

lemma set_firstKeys: "set (firstKeys ns) = nodeKey ` set ns"
  by (simp add: firstKeys_def)

lemma push_groups_present:
  "distinct ks \<Longrightarrow> nodeKey n \<in> set ks \<Longrightarrow>
   push (map (\<lambda>k. (k, F k)) ks) n =
     map (\<lambda>k. (k, if k = nodeKey n then F k @ [n] else F k)) ks"
  by (induction ks) auto

lemma push_groups_absent:
  "nodeKey n \<notin> set ks \<Longrightarrow>
   push (map (\<lambda>k. (k, F k)) ks) n = map (\<lambda>k. (k, F k)) ks @ [(nodeKey n, [n])]"
  by (induction ks) auto

lemma push_grouped: "push (grouped ns) n = grouped (ns @ [n])"
proof (cases "nodeKey n \<in> set (firstKeys ns)")
  case True
  have "push (grouped ns) n =
      map (\<lambda>k. (k, if k = nodeKey n then filter (\<lambda>x. nodeKey x = k) ns @ [n]
                    else filter (\<lambda>x. nodeKey x = k) ns)) (firstKeys ns)"
    unfolding grouped_def using True distinct_firstKeys by (rule push_groups_present [rotated])
  also have "\<dots> = grouped (ns @ [n])"
    using True by (auto simp: grouped_def firstKeys_snoc)
  finally show ?thesis .
next
  case False
  then have notin: "\<forall>x \<in> set ns. nodeKey x \<noteq> nodeKey n"
    unfolding set_firstKeys by (metis imageI)
  have "push (grouped ns) n = grouped ns @ [(nodeKey n, [n])]"
    unfolding grouped_def using False by (rule push_groups_absent)
  also have "\<dots> = grouped (ns @ [n])"
    using False notin by (auto simp: grouped_def firstKeys_snoc set_firstKeys)
  finally show ?thesis .
qed

lemma foldl_push_grouped: "foldl push [] ns = grouped ns"
proof (induction ns rule: rev_induct)
  case Nil
  show ?case by (simp add: grouped_def firstKeys_def)
next
  case (snoc n ns)
  then show ?case by (simp add: push_grouped)
qed

lemma normalizeTraceNode_grouped:
  "normalizeTraceNode root = grouped (preorders [] (tn_children root))"
  by (simp add: normalizeTraceNode_def collect_foldl foldl_push_grouped)

subsection \<open>What a write leaves alone\<close>

lemma selectAllFields_store:
  "snd (selectAllFields ps db) =
     db\<lparr>issued := issued db @ replicate (length ps) (Select Fields)\<rparr>"
proof (induction ps arbitrary: db)
  case Nil
  show ?case by simp
next
  case (Cons p ps)
  obtain t f where p: "p = (t, f)" by (cases p)
  show ?case
    by (simp add: p split_def Let_def Cons.IH selectFields_def replicate_append_same)
qed

lemma selectAllFields_results:
  "fst (selectAllFields ps db) =
     map (\<lambda>(t, f). filter (\<lambda>r. f_type r = t \<and> f_name r = f) (fieldRows db)) ps"
proof (induction ps arbitrary: db)
  case Nil
  show ?case by simp
next
  case (Cons p ps)
  obtain t f where p: "p = (t, f)" by (cases p)
  show ?case
    by (simp add: p split_def Let_def Cons.IH selectFields_def)
qed

lemma insertMissingFields_frame:
  "operations (snd (insertMissingFields pf db)) = operations db"
  "operationsFields (snd (insertMissingFields pf db)) = operationsFields db"
  "operationTraces (snd (insertMissingFields pf db)) = operationTraces db"
  "fieldTraces (snd (insertMissingFields pf db)) = fieldTraces db"
  "errorRows (snd (insertMissingFields pf db)) = errorRows db"
  by (induction pf db rule: insertMissingFields.induct;
      simp add: split_def Let_def insertField_def split: list.splits)+

lemma ensureFieldIds_frame:
  "operations (snd (ensureFieldIds ps db)) = operations db"
  "operationsFields (snd (ensureFieldIds ps db)) = operationsFields db"
  "operationTraces (snd (ensureFieldIds ps db)) = operationTraces db"
  "fieldTraces (snd (ensureFieldIds ps db)) = fieldTraces db"
  "errorRows (snd (ensureFieldIds ps db)) = errorRows db"
  by (simp_all add: ensureFieldIds_def split_def Let_def insertMissingFields_frame
      selectAllFields_store)

lemma ensureFieldIdMap_frame:
  "operations (snd (ensureFieldIdMap m db)) = operations db"
  "operationsFields (snd (ensureFieldIdMap m db)) = operationsFields db"
  "operationTraces (snd (ensureFieldIdMap m db)) = operationTraces db"
  "fieldTraces (snd (ensureFieldIdMap m db)) = fieldTraces db"
  "errorRows (snd (ensureFieldIdMap m db)) = errorRows db"
  by (simp_all add: ensureFieldIdMap_def split_def Let_def ensureFieldIds_frame)

lemma insertMissingFields_rows:
  "fieldRows db = fieldRows db' \<Longrightarrow>
   fst (insertMissingFields pf db) = fst (insertMissingFields pf db') \<and>
   fieldRows (snd (insertMissingFields pf db)) = fieldRows (snd (insertMissingFields pf db'))"
proof (induction pf arbitrary: db db')
  case Nil
  then show ?case by simp
next
  case (Cons x pf)
  obtain t f found where x: "x = ((t, f), found)" by (cases x) auto
  let ?row = "\<lambda>i. \<lparr>f_id = i, f_type = t, f_name = f\<rparr>"
  show ?case
  proof (cases found)
    case Nil
    have "fieldRows (snd (insertField ?row db)) = fieldRows (snd (insertField ?row db'))"
      using Cons.prems by (simp add: insertField_def Let_def)
    from Cons.IH [OF this] Cons.prems Nil show ?thesis
      by (simp add: x split_def Let_def insertField_def)
  next
    case (Cons r rs)
    from Cons.IH [OF Cons.prems] Cons show ?thesis
      by (simp add: x split_def Let_def)
  qed
qed

lemma ensureFieldIds_rows:
  "fieldRows db = fieldRows db' \<Longrightarrow>
   fst (ensureFieldIds ps db) = fst (ensureFieldIds ps db') \<and>
   fieldRows (snd (ensureFieldIds ps db)) = fieldRows (snd (ensureFieldIds ps db'))"
proof -
  assume rows: "fieldRows db = fieldRows db'"
  have same: "fst (selectAllFields ps db) = fst (selectAllFields ps db')"
    by (simp add: selectAllFields_results rows)
  have "fieldRows (snd (selectAllFields ps db)) = fieldRows (snd (selectAllFields ps db'))"
    by (simp add: selectAllFields_store rows)
  from insertMissingFields_rows [OF this, of "zip ps (fst (selectAllFields ps db))"]
  show ?thesis
    by (simp add: ensureFieldIds_def split_def Let_def same)
qed

lemma ensureFieldIdMap_rows:
  "fieldRows db = fieldRows db' \<Longrightarrow>
   fst (ensureFieldIdMap m db) = fst (ensureFieldIdMap m db') \<and>
   fieldRows (snd (ensureFieldIdMap m db)) = fieldRows (snd (ensureFieldIdMap m db'))"
  using ensureFieldIds_rows [of db db' "map typeFieldPair (map fst m)"]
  by (simp add: ensureFieldIdMap_def split_def Let_def)

subsection \<open>The relations after a write\<close>

lemma stored_returning_map:
  "stored (map f xs) (returning rows (map f xs)) =
     map (\<lambda>(x, j). f x (Suc (length rows + j))) (indexed xs)"
  by (simp add: stored_def returning_def indexed_def zip_map_map split_def)

lemma length_returning: "length (returning rows batch) = length batch"
  by (simp add: returning_def)

lemma length_stored_returning: "length (stored batch (returning rows batch)) = length batch"
  by (simp add: stored_def returning_def)

lemma set_stored: "r \<in> set (stored batch ids) \<Longrightarrow> \<exists>row \<in> set batch. \<exists>i. r = row i"
  by (auto simp: stored_def dest!: set_zip_leftD)

lemma selectOperations_simps:
  "fst (selectOperations s db) = filter (\<lambda>r. o_signature r = s) (operations db)"
  "snd (selectOperations s db) = db\<lparr>issued := issued db @ [Select Operations]\<rparr>"
  by (simp_all add: selectOperations_def)

lemma insertOperation_simps:
  "fst (insertOperation row db) = Suc (length (operations db))"
  "operations (snd (insertOperation row db)) = operations db @ [row (Suc (length (operations db)))]"
  "fieldRows (snd (insertOperation row db)) = fieldRows db"
  "operationsFields (snd (insertOperation row db)) = operationsFields db"
  "operationTraces (snd (insertOperation row db)) = operationTraces db"
  "fieldTraces (snd (insertOperation row db)) = fieldTraces db"
  "errorRows (snd (insertOperation row db)) = errorRows db"
  by (simp_all add: insertOperation_def Let_def)

lemma insertOperationsFields_simps:
  "operations (insertOperationsFields batch db) = operations db"
  "fieldRows (insertOperationsFields batch db) = fieldRows db"
  "operationsFields (insertOperationsFields batch db) = operationsFields db @ batch"
  "operationTraces (insertOperationsFields batch db) = operationTraces db"
  "fieldTraces (insertOperationsFields batch db) = fieldTraces db"
  "errorRows (insertOperationsFields batch db) = errorRows db"
  by (simp_all add: insertOperationsFields_def)

lemma insertOperationTrace_simps:
  "fst (insertOperationTrace row db) = Suc (length (operationTraces db))"
  "operations (snd (insertOperationTrace row db)) = operations db"
  "fieldRows (snd (insertOperationTrace row db)) = fieldRows db"
  "operationsFields (snd (insertOperationTrace row db)) = operationsFields db"
  "operationTraces (snd (insertOperationTrace row db)) =
     operationTraces db @ [row (Suc (length (operationTraces db)))]"
  "fieldTraces (snd (insertOperationTrace row db)) = fieldTraces db"
  "errorRows (snd (insertOperationTrace row db)) = errorRows db"
  by (simp_all add: insertOperationTrace_def Let_def)

lemma insertFieldTraces_simps:
  "fst (insertFieldTraces batch db) = returning (fieldTraces db) batch"
  "operations (snd (insertFieldTraces batch db)) = operations db"
  "fieldRows (snd (insertFieldTraces batch db)) = fieldRows db"
  "operationsFields (snd (insertFieldTraces batch db)) = operationsFields db"
  "operationTraces (snd (insertFieldTraces batch db)) = operationTraces db"
  "fieldTraces (snd (insertFieldTraces batch db)) =
     fieldTraces db @ stored batch (returning (fieldTraces db) batch)"
  "errorRows (snd (insertFieldTraces batch db)) = errorRows db"
  by (simp_all add: insertFieldTraces_def Let_def)

lemma insertErrors_simps:
  "operations (insertErrors batch db) = operations db"
  "fieldRows (insertErrors batch db) = fieldRows db"
  "operationsFields (insertErrors batch db) = operationsFields db"
  "operationTraces (insertErrors batch db) = operationTraces db"
  "fieldTraces (insertErrors batch db) = fieldTraces db"
  "errorRows (insertErrors batch db) =
     errorRows db @ stored batch (returning (errorRows db) batch)"
  by (simp_all add: insertErrors_def)

lemmas store_simps = selectOperations_simps insertOperation_simps insertOperationsFields_simps
  insertOperationTrace_simps insertFieldTraces_simps insertErrors_simps ensureFieldIdMap_frame

lemma ensureFieldIdMap_issued:
  "fst (ensureFieldIdMap m (db\<lparr>issued := q\<rparr>)) = fst (ensureFieldIdMap m db)"
  "fieldRows (snd (ensureFieldIdMap m (db\<lparr>issued := q\<rparr>))) =
     fieldRows (snd (ensureFieldIdMap m db))"
  using ensureFieldIdMap_rows [of "db\<lparr>issued := q\<rparr>" db m] by simp_all

lemma ensureFieldIdMap_inserted:
  "fst (ensureFieldIdMap m (snd (insertOperation row db))) = fst (ensureFieldIdMap m db)"
  "fieldRows (snd (ensureFieldIdMap m (snd (insertOperation row db)))) =
     fieldRows (snd (ensureFieldIdMap m db))"
  using ensureFieldIdMap_rows [of "snd (insertOperation row db)" db m]
  by (simp_all add: insertOperation_simps)

lemma operationsFields_writeTraceOn:
  "operationsFields (writeTraceOn s t db) =
     (if filter (\<lambda>r. o_signature r = s) (operations db) = []
      then operationsFields db @
           map (\<lambda>fieldId. \<lparr>of_fieldId = fieldId, of_operationId = Suc (length (operations db))\<rparr>)
             (map snd (fst (ensureFieldIdMap (normalizeTraceNode (entry t)) db)))
      else operationsFields db)"
proof (cases "filter (\<lambda>r. o_signature r = s) (operations db)")
  case Nil
  then show ?thesis
    by (simp add: writeTraceOn_def Let_def split_def store_simps ensureFieldIdMap_issued
        ensureFieldIdMap_inserted)
next
  case (Cons r rs)
  then show ?thesis
    by (simp add: writeTraceOn_def Let_def split_def store_simps ensureFieldIdMap_issued)
qed


lemma operations_writeTraceOn:
  "operations (writeTraceOn s t db) =
     (if filter (\<lambda>r. o_signature r = s) (operations db) = []
      then operations db @ [\<lparr>o_id = Suc (length (operations db)), o_operation = query t,
             o_name = operationName t, o_signature = s\<rparr>]
      else operations db)"
proof (cases "filter (\<lambda>r. o_signature r = s) (operations db)")
  case Nil
  then show ?thesis
    by (simp add: writeTraceOn_def Let_def split_def store_simps)
next
  case (Cons r rs)
  then show ?thesis
    by (simp add: writeTraceOn_def Let_def split_def store_simps)
qed

lemma fieldRows_writeTraceOn:
  "fieldRows (writeTraceOn s t db) =
     fieldRows (snd (ensureFieldIdMap (normalizeTraceNode (entry t)) db))"
proof (cases "filter (\<lambda>r. o_signature r = s) (operations db)")
  case Nil
  then show ?thesis
    by (simp add: writeTraceOn_def Let_def split_def store_simps ensureFieldIdMap_issued
        ensureFieldIdMap_inserted)
next
  case (Cons r rs)
  then show ?thesis
    by (simp add: writeTraceOn_def Let_def split_def store_simps ensureFieldIdMap_issued)
qed


lemma fieldTraces_writeTraceOn:
  "fieldTraces (writeTraceOn s t db) =
     fieldTraces db @
       map (\<lambda>(node, j).
              \<lparr>ft_id = Suc (length (fieldTraces db) + j), ft_path = join_dot (path node),
               ft_fieldId = map_of (fst (ensureFieldIdMap (normalizeTraceNode (entry t)) db))
                              (typeField (parentType node) (field node)),
               ft_operationTraceId = Suc (length (operationTraces db)),
               ft_startTime = startTime node, ft_endTime = endTime node\<rparr>)
         (indexed (nodesOf (normalizeTraceNode (entry t))))"
proof (cases "filter (\<lambda>r. o_signature r = s) (operations db)")
  case Nil
  then show ?thesis
    by (simp add: writeTraceOn_def Let_def split_def store_simps ensureFieldIdMap_issued
        ensureFieldIdMap_inserted stored_returning_map nodesOf_def)
next
  case (Cons r rs)
  then show ?thesis
    by (simp add: writeTraceOn_def Let_def split_def store_simps ensureFieldIdMap_issued
        stored_returning_map nodesOf_def)
qed

lemma stored_Nil: "stored [] ids = []"
  by (simp add: stored_def)

lemma errorRows_writeTraceOn:
  "errorRows (writeTraceOn s t db) =
     (let rootRows = stored (rootErrorBatch (tn_errors (entry t)) (Suc (length (operationTraces db))))
            (returning (errorRows db)
               (rootErrorBatch (tn_errors (entry t)) (Suc (length (operationTraces db)))));
          nodes = nodesOf (normalizeTraceNode (entry t));
          batch = nodeErrorBatch nodes (returning (fieldTraces db) nodes)
      in errorRows db @ rootRows @ stored batch (returning (errorRows db @ rootRows) batch))"
proof (cases "filter (\<lambda>r. o_signature r = s) (operations db)")
  case Nil
  then show ?thesis
    by (simp add: writeTraceOn_def Let_def split_def store_simps nodesOf_def
        nodeErrorBatch_def rootErrorBatch_def returning_def stored_Nil)
next
  case (Cons r rs)
  then show ?thesis
    by (simp add: writeTraceOn_def Let_def split_def store_simps nodesOf_def
        nodeErrorBatch_def rootErrorBatch_def returning_def stored_Nil)
qed

subsection \<open>A write that goes on alone\<close>

lemma settle_one: "settle [w] db = finish (resume w db)"
  by (simp add: finish_def split_def Let_def split: option.splits)

declare settle.simps(2) [simp del]

lemma finish_simps:
  "finish (None, db) = db"
  "finish (Some w, db) = finish (resume w db)"
  by (simp_all add: finish_def settle_one)

lemma finish_thenFieldErrors:
  "finish (thenFieldErrors t ids db) =
   insertErrors (nodeErrorBatch (nodesOf (normalizeTraceNode (entry t))) ids) db"
  by (simp add: thenFieldErrors_def Let_def finish_simps nodeErrorBatch_def nodesOf_def)

lemma finish_thenOperationErrors:
  "finish (thenOperationErrors t otid ids db) =
   insertErrors (nodeErrorBatch (nodesOf (normalizeTraceNode (entry t))) ids)
     (if tn_errors (entry t) \<noteq> [] then insertErrors (rootErrorBatch (tn_errors (entry t)) otid) db
      else db)"
  by (simp add: thenOperationErrors_def finish_simps finish_thenFieldErrors rootErrorBatch_def)

lemma finish_thenFieldTraces:
  "finish (thenFieldTraces t fieldIdMap otid db) =
   (let nodes = nodesOf (normalizeTraceNode (entry t));
        (fieldTraceIds, db1) =
            insertFieldTraces
              (map (\<lambda>node i. \<lparr>ft_id = i, ft_path = join_dot (path node),
                       ft_fieldId = map_of fieldIdMap (typeField (parentType node) (field node)),
                       ft_operationTraceId = otid,
                       ft_startTime = startTime node, ft_endTime = endTime node\<rparr>) nodes) db
    in insertErrors (nodeErrorBatch nodes fieldTraceIds)
     (if tn_errors (entry t) \<noteq> [] then insertErrors (rootErrorBatch (tn_errors (entry t)) otid) db1
      else db1))"
  by (simp add: thenFieldTraces_def Let_def split_def nodesOf_def finish_simps
      finish_thenOperationErrors)

lemma finish_thenOperationTrace:
  "finish (thenOperationTrace t operationId fieldIdMap db) =
   (let (otid, db0) =
            insertOperationTrace (\<lambda>i. \<lparr>ot_id = i, ot_operationId = operationId,
              ot_startTime = trace_startTime t, ot_duration = duration t,
              ot_parsing = parsing t, ot_validation = validation t,
              ot_execution = execution t\<rparr>) db;
        nodes = nodesOf (normalizeTraceNode (entry t));
        (fieldTraceIds, db1) =
            insertFieldTraces
              (map (\<lambda>node i. \<lparr>ft_id = i, ft_path = join_dot (path node),
                       ft_fieldId = map_of fieldIdMap (typeField (parentType node) (field node)),
                       ft_operationTraceId = otid,
                       ft_startTime = startTime node, ft_endTime = endTime node\<rparr>) nodes) db0
    in insertErrors (nodeErrorBatch nodes fieldTraceIds)
     (if tn_errors (entry t) \<noteq> [] then insertErrors (rootErrorBatch (tn_errors (entry t)) otid) db1
      else db1))"
  by (simp add: thenOperationTrace_def Let_def split_def finish_simps finish_thenFieldTraces)

lemma finish_thenOperationsFields:
  "finish (thenOperationsFields t existingOperation operationId ids db) =
   fromFieldIdMap t existingOperation operationId
     (foldl (\<lambda>acc ((type, fieldName), i). assign acc (typeField type fieldName) i) []
        (zip (map typeFieldPair (map fst (normalizeTraceNode (entry t)))) ids)) db"
  by (simp add: thenOperationsFields_def Let_def finish_simps finish_thenOperationTrace
      fromFieldIdMap_def)

lemma finish_thenFieldInserts:
  "finish (thenFieldInserts t existingOperation operationId fieldResults db) =
   (let pairs = map typeFieldPair (map fst (normalizeTraceNode (entry t)));
        r = insertMissingFields (zip pairs fieldResults) db
    in fromFieldIdMap t existingOperation operationId
     (foldl (\<lambda>acc ((type, fieldName), i). assign acc (typeField type fieldName) i) []
        (zip pairs (fst r))) (snd r))"
  by (simp add: thenFieldInserts_def Let_def split_def finish_simps finish_thenOperationsFields)

lemma finish_thenFieldSelects:
  "finish (thenFieldSelects t existingOperation operationId db) =
   (let r = ensureFieldIdMap (normalizeTraceNode (entry t)) db
    in fromFieldIdMap t existingOperation operationId (fst r) (snd r))"
  by (simp add: thenFieldSelects_def Let_def split_def finish_simps finish_thenOperationsFields
      finish_thenFieldInserts ensureFieldIdMap_def ensureFieldIds_def)

lemma writeTraceOn_fromFieldIdMap:
  "writeTraceOn s t db =
   (let found = fst (selectOperations s db); db1 = snd (selectOperations s db);
        existingOperation = (case found of [] \<Rightarrow> None | r # _ \<Rightarrow> Some r);
        r2 = (case existingOperation of
               Some r \<Rightarrow> (o_id r, db1)
             | None \<Rightarrow>
                 insertOperation (\<lambda>i. \<lparr>o_id = i, o_operation = query t,
                   o_name = operationName t, o_signature = s\<rparr>) db1);
        r3 = ensureFieldIdMap (normalizeTraceNode (entry t)) (snd r2)
    in fromFieldIdMap t existingOperation (fst r2) (fst r3) (snd r3))"
  by (simp add: writeTraceOn_def fromFieldIdMap_def Let_def split_def nodesOf_def
      nodeErrorBatch_def rootErrorBatch_def)

lemma settle_alone:
  "settle [AwaitOperationSelect s t (fst (selectOperations s db))] (snd (selectOperations s db)) =
   writeTraceOn s t db"
  by (cases "fst (selectOperations s db)")
    (simp_all add: settle_one finish_simps finish_thenFieldSelects writeTraceOn_fromFieldIdMap
      Let_def split_def)

lemma writeReport_one: "writeReport sg adapter \<lparr>traces = [t]\<rparr> = writeTrace sg adapter t"
  by (cases adapter)
    (simp_all add: writeReport_def startWrite_def writeTrace_def client_def split_def Let_def
      settle_alone split: sum.splits)

text \<open>Two traces of one new operation in one report: both writes look the operation and
  the fields up before either has inserted them, so each inserts its own rows.\<close>

lemma report_of_one_operation_twice:
  "map_option
     (\<lambda>db. (map o_id (operations db), map (\<lambda>r. (f_id r, f_type r, f_name r)) (fieldRows db),
            map (\<lambda>r. (of_fieldId r, of_operationId r)) (operationsFields db),
            map (\<lambda>r. (ot_id r, ot_operationId r)) (operationTraces db),
            map (\<lambda>r. (ft_id r, ft_fieldId r, ft_operationTraceId r)) (fieldTraces db)))
     (snd (writeReport (@) (Some emptyStore) \<lparr>traces = [userTrace, userTrace]\<rparr>)) =
   Some ([1, 2],
     [(1, ''Query'', ''user''), (2, ''User'', ''name''), (3, ''Query'', ''user''),
      (4, ''User'', ''name'')],
     [(1, 1), (2, 1), (3, 2), (4, 2)],
     [(1, 1), (2, 2)],
     [(1, Some 1, 1), (2, Some 2, 1), (3, Some 3, 2), (4, Some 4, 2)])"
  by code_simp

subsection \<open>The flat node sequence\<close>

lemma nodesOf_push: "mset (nodesOf (push m n)) = mset (nodesOf m) + {#n#}"
  by (induction m n rule: push.induct) (simp_all add: nodesOf_def flatten_def)

lemma nodesOf_foldl_push: "mset (nodesOf (foldl push m ns)) = mset (nodesOf m) + mset ns"
  by (induction ns arbitrary: m) (simp_all add: nodesOf_push)

lemma nodesOf_Nil: "nodesOf [] = []"
  by (simp add: nodesOf_def flatten_def)

lemma nodesOf_snoc: "nodesOf (m @ [(k, ns)]) = nodesOf m @ ns"
  by (simp add: nodesOf_def flatten_def)

lemma nodesOf_grouped_distinct:
  "distinct (map nodeKey ns) \<Longrightarrow> nodesOf (grouped ns) = ns"
proof (induction ns rule: rev_induct)
  case Nil
  show ?case by (simp add: grouped_def firstKeys_def nodesOf_def flatten_def)
next
  case (snoc n ns)
  then have absent: "nodeKey n \<notin> set (firstKeys ns)" and d: "distinct (map nodeKey ns)"
    by (simp_all add: set_firstKeys)
  have "grouped (ns @ [n]) = push (grouped ns) n"
    by (simp add: push_grouped)
  also have "\<dots> = grouped ns @ [(nodeKey n, [n])]"
    unfolding grouped_def using absent by (rule push_groups_absent)
  finally show ?case
    using snoc.IH [OF d] by (simp add: nodesOf_snoc)
qed

text \<open>
  C7, as stated: the flat node sequence is the pre-order traversal of the trace tree. It is
  not, for a tree in which a key comes back after another key: below \<^verbatim>\<open>a\<close> and \<^verbatim>\<open>b\<close> the
  field \<^verbatim>\<open>X.n\<close> occurs twice, the pre-order is \<^verbatim>\<open>a, a.n, b, b.n\<close>, the flat sequence is
  \<^verbatim>\<open>a, a.n, b.n, b\<close>.
\<close>

theorem nodes_preorder_counterexample:
  "nodesOf (normalizeTraceNode (entry interleavedTrace)) \<noteq>
   preorders [] (tn_children (entry interleavedTrace))"
  by (simp add: interleavedTrace_def traceOf_def leafNode_def normalizeTraceNode_def nodesOf_def
      flatten_def normalized_def nodeKey_def typeField_def)

text \<open>
  C7, amended: the flat node sequence that is zipped against the inserted FieldTrace ids is
  the pre-order traversal of the trace tree grouped by the key \<^verbatim>\<open>type.field\<close>: the groups
  stand in the order in which their keys first occur in the pre-order, every group keeps the
  pre-order of its nodes. It has the nodes of the pre-order, each as often, and it is the
  pre-order itself when no key occurs twice.
\<close>

theorem nodes_grouped_preorder:
  "nodesOf (normalizeTraceNode root) =
     concat (map (\<lambda>k. filter (\<lambda>n. nodeKey n = k) (preorders [] (tn_children root)))
               (firstKeys (preorders [] (tn_children root)))) \<and>
   mset (nodesOf (normalizeTraceNode root)) = mset (preorders [] (tn_children root)) \<and>
   (distinct (map nodeKey (preorders [] (tn_children root))) \<longrightarrow>
      nodesOf (normalizeTraceNode root) = preorders [] (tn_children root))"
proof (intro conjI impI)
  show "nodesOf (normalizeTraceNode root) =
     concat (map (\<lambda>k. filter (\<lambda>n. nodeKey n = k) (preorders [] (tn_children root)))
               (firstKeys (preorders [] (tn_children root))))"
    by (simp add: normalizeTraceNode_grouped grouped_def nodesOf_def flatten_def comp_def)
  show "mset (nodesOf (normalizeTraceNode root)) = mset (preorders [] (tn_children root))"
    by (simp add: normalizeTraceNode_def collect_foldl nodesOf_foldl_push nodesOf_Nil)
  show "nodesOf (normalizeTraceNode root) = preorders [] (tn_children root)"
    if "distinct (map nodeKey (preorders [] (tn_children root)))"
    using that by (simp add: normalizeTraceNode_grouped nodesOf_grouped_distinct)
qed

text \<open>The amended C7 at the scenario of section 8, where no key occurs twice.\<close>

theorem nodes_grouped_preorder_witness:
  "distinct (map nodeKey (preorders [] (tn_children (entry userTrace)))) \<and>
   nodesOf (normalizeTraceNode (entry userTrace)) =
     preorders [] (tn_children (entry userTrace))"
proof -
  have d: "distinct (map nodeKey (preorders [] (tn_children (entry userTrace))))"
    by (simp add: userTrace_def traceOf_def leafNode_def normalized_def nodeKey_def
        typeField_def)
  with nodes_grouped_preorder [of "entry userTrace"] show ?thesis by blast
qed

subsection \<open>The adapter before \<^verbatim>\<open>init()\<close>, and the empty report\<close>

lemma startWrites_uninitialised:
  "startWrites sg None ts =
     (map (\<lambda>t. case operationSignature sg (query t) (operationName t) of
                  Inl e \<Rightarrow> Inl e | Inr _ \<Rightarrow> Inl (Error ''Remember to init()'')) ts, None)"
  by (induction ts) (simp_all add: startWrite_def client_def split: sum.splits)

text \<open>
  C10: for a report whose list of traces is empty, \<^verbatim>\<open>writeReport\<close> completes successfully
  and issues no storage read or write: the adapter, with the six relations and the record of
  issued queries of its store, is what it was. This holds before \<^verbatim>\<open>init()\<close> as well.
\<close>

theorem writeReport_no_traces:
  "writeReport sg adapter \<lparr>traces = []\<rparr> = (Inr (), adapter)"
  by (cases adapter) (simp_all add: writeReport_def)

text \<open>
  C9, as stated: before \<^verbatim>\<open>init()\<close>, \<^verbatim>\<open>writeReport\<close> with at least one trace fails with
  \<^verbatim>\<open>Remember to init()\<close>. For a report whose trace has no query the write fails in the
  signature computation, which comes before the first use of the client.
\<close>

theorem uninitialised_counterexample:
  "writeReport (@) None \<lparr>traces = [unsignedTrace]\<rparr> = (Inl SignatureFailure, None) \<and>
   SignatureFailure \<noteq> Error ''Remember to init()''"
  by (simp add: writeReport_def startWrite_def operationSignature_def unsignedTrace_def
      traceOf_def)

text \<open>
  C9, amended: on an adapter on which \<^verbatim>\<open>init()\<close> has not been called, each of the five
  readers fails with \<^verbatim>\<open>Remember to init()\<close>, and \<^verbatim>\<open>writeReport\<close> with at least one trace
  fails, all of them before any storage read or write (there is no store, and the adapter
  stays as it was); the error of \<^verbatim>\<open>writeReport\<close> is \<^verbatim>\<open>Remember to init()\<close> when the signature
  of the report's first trace can be computed, and the failure of that computation when not.
\<close>

theorem uninitialised_fails:
  "readFields None = (Inl (Error ''Remember to init()''), None) \<and>
   readOperations None = (Inl (Error ''Remember to init()''), None) \<and>
   readOperationTraces None = (Inl (Error ''Remember to init()''), None) \<and>
   readFieldTraces None = (Inl (Error ''Remember to init()''), None) \<and>
   readErrors None = (Inl (Error ''Remember to init()''), None) \<and>
   writeReport sg None \<lparr>traces = t # ts\<rparr> =
     (Inl (case operationSignature sg (query t) (operationName t) of
             Inl e \<Rightarrow> e | Inr _ \<Rightarrow> Error ''Remember to init()''), None)"
  unfolding writeReport_def startWrites_uninitialised
  by (simp add: readFields_def readOperations_def readOperationTraces_def readFieldTraces_def
      readErrors_def client_def split: sum.splits)

text \<open>The amended C9 at a report of two traces, the second without a query.\<close>

theorem uninitialised_fails_witness:
  "writeReport (@) None \<lparr>traces = [interleavedTrace, unsignedTrace]\<rparr> =
     (Inl (Error ''Remember to init()''), None) \<and>
   readErrors None = (Inl (Error ''Remember to init()''), None)"
  using uninitialised_fails [of "(@)" interleavedTrace "[unsignedTrace]"]
  by (simp add: operationSignature_def interleavedTrace_def traceOf_def)

subsection \<open>Error rows and their owners\<close>

lemma nodes_erroredTrace:
  "nodesOf (normalizeTraceNode (entry erroredTrace)) =
     [\<lparr>path = [''a''], field = ''a'', parentType = ''Query'', startTime = 0, endTime = 1,
        errors = []\<rparr>,
      \<lparr>path = [''b''], field = ''b'', parentType = ''Query'', startTime = 0, endTime = 1,
        errors = [\<lparr>message = ''b failed'', json = ''{}''\<rparr>]\<rparr>]"
  by (simp add: erroredTrace_def traceOf_def leafNode_def normalizeTraceNode_def nodesOf_def
      flatten_def normalized_def nodeKey_def typeField_def)

lemma rootErrors_erroredTrace:
  "tn_errors (entry erroredTrace) = [\<lparr>message = ''root failed'', json = ''{}''\<rparr>]"
  by (simp add: erroredTrace_def traceOf_def)

lemma rootErrorBatch_rows:
  "r \<in> set (stored (rootErrorBatch errs otid) ids) \<Longrightarrow>
   e_operationTraceId r = Some otid \<and> e_fieldTraceId r = None"
  by (drule set_stored) (auto simp: rootErrorBatch_def)

lemma nodeErrorBatch_rows:
  assumes "length nodes \<le> length ids" and "r \<in> set (stored (nodeErrorBatch nodes ids) js)"
  shows "e_operationTraceId r = None \<and> e_fieldTraceId r \<noteq> None"
proof -
  from set_stored [OF assms(2)] obtain row j
    where row: "row \<in> set (nodeErrorBatch nodes ids)" and r: "r = row j" by blast
  from row obtain i
    where i: "i < length (filter (\<lambda>node. errors node \<noteq> []) nodes)"
      and owner: "e_operationTraceId (row j) = None" "e_fieldTraceId (row j) = nth_opt ids i"
    by (auto simp: nodeErrorBatch_def flatten_def Let_def indexed_def dest: set_zip_rightD)
  note i
  also have "length (filter (\<lambda>node. errors node \<noteq> []) nodes) \<le> length nodes" by simp
  finally have "i < length ids" using assms(1) by simp
  then show ?thesis by (simp add: r owner nth_opt_def)
qed

lemma length_concat_zip:
  "length js = length xs \<Longrightarrow>
   length (concat (map (\<lambda>(node, i). map (g i) (errors node)) (zip xs js))) =
   length (concat (map errors xs))"
proof (induction xs arbitrary: js)
  case Nil
  then show ?case by simp
next
  case (Cons x xs)
  then obtain j js' where "js = j # js'" by (cases js) auto
  with Cons show ?case by simp
qed

lemma concat_errors_filter:
  "concat (map errors (filter (\<lambda>node. errors node \<noteq> []) ns)) = concat (map errors ns)"
  by (induction ns) auto

lemma length_nodeErrorBatch:
  "length (nodeErrorBatch nodes ids) = length (concat (map errors nodes))"
proof -
  have "length (nodeErrorBatch nodes ids) =
      length (concat (map errors (filter (\<lambda>node. errors node \<noteq> []) nodes)))"
    unfolding nodeErrorBatch_def flatten_def indexed_def Let_def
    by (rule length_concat_zip) simp
  then show ?thesis by (simp add: concat_errors_filter)
qed

text \<open>
  C6: every Error row a write inserts has exactly one owner: the rows beyond the ones already
  stored are the rows of the root entry's errors, one per error, each with an
  \<^verbatim>\<open>operationTraceId\<close> and no \<^verbatim>\<open>fieldTraceId\<close>, followed by the rows of the nodes' errors, one
  per error, each with a \<^verbatim>\<open>fieldTraceId\<close> and no \<^verbatim>\<open>operationTraceId\<close>.
\<close>

theorem error_rows_one_owner:
  "\<exists>rootRows nodeRows.
     errorRows (writeTraceOn s t db) = errorRows db @ rootRows @ nodeRows \<and>
     length rootRows = length (tn_errors (entry t)) \<and>
     length nodeRows = length (concat (map errors (nodesOf (normalizeTraceNode (entry t))))) \<and>
     (\<forall>e \<in> set rootRows. e_operationTraceId e \<noteq> None \<and> e_fieldTraceId e = None) \<and>
     (\<forall>e \<in> set nodeRows. e_operationTraceId e = None \<and> e_fieldTraceId e \<noteq> None)"
proof -
  define otid where "otid = Suc (length (operationTraces db))"
  define nodes where "nodes = nodesOf (normalizeTraceNode (entry t))"
  define rootRows where "rootRows = stored (rootErrorBatch (tn_errors (entry t)) otid)
     (returning (errorRows db) (rootErrorBatch (tn_errors (entry t)) otid))"
  define batch where "batch = nodeErrorBatch nodes (returning (fieldTraces db) nodes)"
  define nodeRows where "nodeRows = stored batch (returning (errorRows db @ rootRows) batch)"
  have rows: "errorRows (writeTraceOn s t db) = errorRows db @ rootRows @ nodeRows"
    by (simp add: errorRows_writeTraceOn Let_def nodeRows_def batch_def rootRows_def nodes_def
        otid_def)
  have lroot: "length rootRows = length (tn_errors (entry t))"
    by (simp add: rootRows_def length_stored_returning rootErrorBatch_def)
  have lnode: "length nodeRows = length (concat (map errors nodes))"
    by (simp add: nodeRows_def length_stored_returning batch_def length_nodeErrorBatch)
  have root: "\<forall>e \<in> set rootRows. e_operationTraceId e \<noteq> None \<and> e_fieldTraceId e = None"
    unfolding rootRows_def by (auto dest: rootErrorBatch_rows)
  have node: "\<forall>e \<in> set nodeRows. e_operationTraceId e = None \<and> e_fieldTraceId e \<noteq> None"
    unfolding nodeRows_def batch_def
    by (intro ballI nodeErrorBatch_rows [where nodes = nodes]) (simp_all add: length_returning)
  from rows lroot lnode root node show ?thesis
    unfolding nodes_def by blast
qed

text \<open>C6 at a trace with one error at the root entry and one at its second node.\<close>

theorem error_rows_one_owner_witness:
  "map (\<lambda>e. (e_message e, e_operationTraceId e, e_fieldTraceId e))
     (errorRows (writeTraceOn ''s'' erroredTrace emptyStore)) =
     [(''root failed'', Some 1, None), (''b failed'', None, Some 1)] \<and>
   (\<exists>rootRows nodeRows.
     errorRows (writeTraceOn ''s'' erroredTrace emptyStore) =
       errorRows emptyStore @ rootRows @ nodeRows \<and>
     length rootRows = 1 \<and> length nodeRows = 1 \<and>
     (\<forall>e \<in> set rootRows. e_operationTraceId e \<noteq> None \<and> e_fieldTraceId e = None) \<and>
     (\<forall>e \<in> set nodeRows. e_operationTraceId e = None \<and> e_fieldTraceId e \<noteq> None))"
proof
  show "map (\<lambda>e. (e_message e, e_operationTraceId e, e_fieldTraceId e))
     (errorRows (writeTraceOn ''s'' erroredTrace emptyStore)) =
     [(''root failed'', Some 1, None), (''b failed'', None, Some 1)]"
    by (simp add: errorRows_writeTraceOn nodes_erroredTrace Let_def
      nodeErrorBatch_def rootErrorBatch_def stored_def returning_def indexed_def nth_opt_def
      flatten_def emptyStore_def rootErrors_erroredTrace)
  show "\<exists>rootRows nodeRows.
     errorRows (writeTraceOn ''s'' erroredTrace emptyStore) =
       errorRows emptyStore @ rootRows @ nodeRows \<and>
     length rootRows = 1 \<and> length nodeRows = 1 \<and>
     (\<forall>e \<in> set rootRows. e_operationTraceId e \<noteq> None \<and> e_fieldTraceId e = None) \<and>
     (\<forall>e \<in> set nodeRows. e_operationTraceId e = None \<and> e_fieldTraceId e \<noteq> None)"
    using error_rows_one_owner [of "''s''" erroredTrace emptyStore]
    by (simp add: nodes_erroredTrace rootErrors_erroredTrace)
qed

text \<open>
  C1 at a trace with two nodes, the second with an error: two FieldTrace rows are inserted,
  with ids 1 (path \<^verbatim>\<open>a\<close>) and 2 (path \<^verbatim>\<open>b\<close>); the Error row of the error of node \<^verbatim>\<open>b\<close> is
  owned by FieldTrace 1, the row of node \<^verbatim>\<open>a\<close>. The index \<^verbatim>\<open>i\<close> in
  \<^verbatim>\<open>nodes.filter(node => node.errors.length).map((node, i) => fieldTraceIds[i])\<close> counts the
  nodes with errors, while \<^verbatim>\<open>fieldTraceIds\<close> is indexed by all nodes.
\<close>

theorem node_error_owner_evaluated:
  "map (\<lambda>r. (ft_id r, ft_path r)) (fieldTraces (writeTraceOn ''s'' erroredTrace emptyStore)) =
     [(1, ''a''), (2, ''b'')] \<and>
   map (\<lambda>e. (e_message e, e_fieldTraceId e))
     (filter (\<lambda>e. e_operationTraceId e = None) (errorRows (writeTraceOn ''s'' erroredTrace emptyStore))) =
     [(''b failed'', Some 1)]"
  by (simp add: fieldTraces_writeTraceOn errorRows_writeTraceOn nodes_erroredTrace Let_def
      nodeErrorBatch_def rootErrorBatch_def stored_def returning_def indexed_def nth_opt_def
      flatten_def emptyStore_def rootErrors_erroredTrace)

subsection \<open>Operations, their links and their traces\<close>

lemma signature_known_after_write:
  "filter (\<lambda>r. o_signature r = s) (operations (writeTraceOn s t db)) \<noteq> []"
  by (simp add: operations_writeTraceOn)



lemma map_userTrace:
  "normalizeTraceNode (entry userTrace) =
     [(''Query.user'', [\<lparr>path = [''user''], field = ''user'', parentType = ''Query'',
         startTime = 0, endTime = 4, errors = []\<rparr>]),
      (''User.name'', [\<lparr>path = [''user'', ''name''], field = ''name'', parentType = ''User'',
         startTime = 0, endTime = 1, errors = []\<rparr>])]"
  by (simp add: userTrace_def traceOf_def leafNode_def normalizeTraceNode_def normalized_def
      nodeKey_def typeField_def)

lemma map_emailTrace:
  "normalizeTraceNode (entry emailTrace) =
     [(''Query.user'', [\<lparr>path = [''user''], field = ''user'', parentType = ''Query'',
         startTime = 0, endTime = 4, errors = []\<rparr>]),
      (''User.email'', [\<lparr>path = [''user'', ''email''], field = ''email'', parentType = ''User'',
         startTime = 0, endTime = 1, errors = []\<rparr>])]"
  by (simp add: emailTrace_def traceOf_def leafNode_def normalizeTraceNode_def normalized_def
      nodeKey_def typeField_def)

lemmas resolve_simps = ensureFieldIdMap_def ensureFieldIds_def selectFields_def insertField_def
  typeFieldPair_def typeField_def Let_def split_def

lemma fields_after_userTrace:
  "fieldRows (writeTraceOn s userTrace emptyStore) =
     [\<lparr>f_id = 1, f_type = ''Query'', f_name = ''user''\<rparr>,
      \<lparr>f_id = 2, f_type = ''User'', f_name = ''name''\<rparr>]"
  by (simp add: fieldRows_writeTraceOn map_userTrace resolve_simps emptyStore_def)

lemma fields_after_emailTrace:
  "fieldRows (writeTraceOn s emailTrace (writeTraceOn s userTrace emptyStore)) =
     [\<lparr>f_id = 1, f_type = ''Query'', f_name = ''user''\<rparr>,
      \<lparr>f_id = 2, f_type = ''User'', f_name = ''name''\<rparr>,
      \<lparr>f_id = 3, f_type = ''User'', f_name = ''email''\<rparr>]"
proof -
  have "fieldRows (writeTraceOn s userTrace emptyStore) =
      fieldRows (emptyStore\<lparr>fieldRows := [\<lparr>f_id = 1, f_type = ''Query'', f_name = ''user''\<rparr>,
      \<lparr>f_id = 2, f_type = ''User'', f_name = ''name''\<rparr>]\<rparr>)"
    by (simp add: fields_after_userTrace)
  from ensureFieldIdMap_rows [OF this, of "normalizeTraceNode (entry emailTrace)"]
  show ?thesis
    by (simp add: fieldRows_writeTraceOn [of s emailTrace] map_emailTrace resolve_simps
        emptyStore_def)
qed

lemma writeTrace_initialised:
  "operationSignature sg (query t) (operationName t) = Inr s \<Longrightarrow>
   writeTrace sg (Some db) t = (Inr (), Some (writeTraceOn s t db))"
  by (simp add: writeTrace_def client_def)

text \<open>
  C4: a write inserts OperationField rows only when no Operation row has the signature
  yet; then it inserts one row per entry of the field id map, all for the new operation. A
  later write with the same signature inserts none, whatever fields its trace visits.
\<close>

theorem link_once:
  "(operationsFields (writeTraceOn s t db) \<noteq> operationsFields db \<longrightarrow>
      filter (\<lambda>r. o_signature r = s) (operations db) = []) \<and>
   (filter (\<lambda>r. o_signature r = s) (operations db) = [] \<longrightarrow>
      operationsFields (writeTraceOn s t db) =
        operationsFields db @
        map (\<lambda>fieldId. \<lparr>of_fieldId = fieldId, of_operationId = operationIdOf s db\<rparr>)
          (map snd (fst (ensureFieldIdMap (normalizeTraceNode (entry t)) db)))) \<and>
   operationsFields (writeTraceOn s t2 (writeTraceOn s t1 db)) =
     operationsFields (writeTraceOn s t1 db)"
proof (intro conjI impI)
  show "filter (\<lambda>r. o_signature r = s) (operations db) = []"
    if "operationsFields (writeTraceOn s t db) \<noteq> operationsFields db"
    using that by (simp add: operationsFields_writeTraceOn split: if_splits)
  show "operationsFields (writeTraceOn s t db) =
        operationsFields db @
        map (\<lambda>fieldId. \<lparr>of_fieldId = fieldId, of_operationId = operationIdOf s db\<rparr>)
          (map snd (fst (ensureFieldIdMap (normalizeTraceNode (entry t)) db)))"
    if "filter (\<lambda>r. o_signature r = s) (operations db) = []"
    using that by (simp add: operationsFields_writeTraceOn operationIdOf_def)
  show "operationsFields (writeTraceOn s t2 (writeTraceOn s t1 db)) =
     operationsFields (writeTraceOn s t1 db)"
    using signature_known_after_write [of s t1 db]
    by (simp add: operationsFields_writeTraceOn [of s t2])
qed

text \<open>C4 on the empty store: the first trace links \<^verbatim>\<open>Query.user\<close> and \<^verbatim>\<open>User.name\<close>; the
  second, with the same signature, resolves the new field \<^verbatim>\<open>User.email\<close> and links nothing.\<close>

theorem link_once_witness:
  "filter (\<lambda>r. o_signature r = ''s'') (operations emptyStore) = [] \<and>
   operationsFields (writeTraceOn ''s'' userTrace emptyStore) =
     [\<lparr>of_fieldId = 1, of_operationId = 1\<rparr>, \<lparr>of_fieldId = 2, of_operationId = 1\<rparr>] \<and>
   operationsFields (writeTraceOn ''s'' emailTrace (writeTraceOn ''s'' userTrace emptyStore)) =
     [\<lparr>of_fieldId = 1, of_operationId = 1\<rparr>, \<lparr>of_fieldId = 2, of_operationId = 1\<rparr>] \<and>
   map f_name (fieldRows (writeTraceOn ''s'' emailTrace (writeTraceOn ''s'' userTrace emptyStore))) =
     [''user'', ''name'', ''email'']"
proof -
  have absent: "filter (\<lambda>r. o_signature r = ''s'') (operations emptyStore) = []"
    by (simp add: emptyStore_def)
  note l = link_once [of "''s''" userTrace emptyStore emailTrace userTrace]
  from l absent have first:
    "operationsFields (writeTraceOn ''s'' userTrace emptyStore) =
     [\<lparr>of_fieldId = 1, of_operationId = 1\<rparr>, \<lparr>of_fieldId = 2, of_operationId = 1\<rparr>]"
    by (simp add: map_userTrace resolve_simps emptyStore_def operationIdOf_def)
  from l have "operationsFields (writeTraceOn ''s'' emailTrace (writeTraceOn ''s'' userTrace emptyStore)) =
     operationsFields (writeTraceOn ''s'' userTrace emptyStore)" by blast
  with absent first show ?thesis by (simp add: fields_after_emailTrace)
qed

subsection \<open>The selects and the inserts of the resolver\<close>


















subsection \<open>Field identities\<close>

lemma split_dot_nonempty: "split_dot w \<noteq> []"
  by (induction w) (auto split: list.splits)






lemma keys_normalizeTraceNode:
  "map fst (normalizeTraceNode root) = firstKeys (preorders [] (tn_children root))"
  by (simp add: normalizeTraceNode_grouped grouped_def comp_def)

lemma set_nodesOf_normalizeTraceNode:
  "set (nodesOf (normalizeTraceNode root)) = set (preorders [] (tn_children root))"
proof -
  have "mset (nodesOf (normalizeTraceNode root)) = mset (preorders [] (tn_children root))"
    by (simp add: normalizeTraceNode_def collect_foldl nodesOf_foldl_push nodesOf_Nil)
  then show ?thesis by (rule mset_eq_setD)
qed

lemma key_of_node:
  "k \<in> set (map fst (normalizeTraceNode root)) \<longleftrightarrow>
   (\<exists>n \<in> set (nodesOf (normalizeTraceNode root)). k = nodeKey n)"
  by (auto simp: keys_normalizeTraceNode set_firstKeys set_nodesOf_normalizeTraceNode)















lemma split_dot_two:
  "\<exists>type fieldName rest. split_dot (a @ CHR ''.'' # b) = type # fieldName # rest"
proof (induction a)
  case Nil
  obtain w ws where "split_dot b = w # ws"
    using split_dot_nonempty [of b] by (cases "split_dot b") auto
  then show ?case by simp
next
  case (Cons c a)
  then obtain w v ws where "split_dot (a @ CHR ''.'' # b) = w # v # ws" by blast
  then show ?case by simp
qed

lemma keys_have_dot:
  assumes "k \<in> set (map fst (normalizeTraceNode root))"
  shows "\<exists>type fieldName rest. split_dot k = type # fieldName # rest \<and>
           typeFieldPair k = (type, fieldName)"
proof -
  from assms obtain n where "k = nodeKey n" unfolding key_of_node by blast
  then have "k = parentType n @ CHR ''.'' # field n"
    by (simp add: nodeKey_def typeField_def)
  with split_dot_two [of "parentType n" "field n"] obtain type fieldName rest
    where "split_dot k = type # fieldName # rest" by auto
  then show ?thesis by (simp add: typeFieldPair_def)
qed

lemma map_dottedTrace:
  "normalizeTraceNode (entry dottedTrace) =
     [(''A.b.c'', [\<lparr>path = [''b.c''], field = ''b.c'', parentType = ''A'', startTime = 0,
         endTime = 1, errors = []\<rparr>]),
      (''A.b.d'', [\<lparr>path = [''b.d''], field = ''b.d'', parentType = ''A'', startTime = 0,
         endTime = 1, errors = []\<rparr>])]"
  by (simp add: dottedTrace_def traceOf_def leafNode_def normalizeTraceNode_def normalized_def
      nodeKey_def typeField_def)

lemma resolved_dottedTrace:
  "ensureFieldIdMap (normalizeTraceNode (entry dottedTrace)) emptyStore =
     ([(''A.b'', 2)],
      emptyStore\<lparr>fieldRows := [\<lparr>f_id = 1, f_type = ''A'', f_name = ''b''\<rparr>,
                                \<lparr>f_id = 2, f_type = ''A'', f_name = ''b''\<rparr>],
                  issued := [Select Fields, Select Fields, Insert Fields, Insert Fields]\<rparr>)"
  unfolding map_dottedTrace by (simp add: resolve_simps emptyStore_def)




lemma signature_userTrace:
  "operationSignature (@) (query userTrace) (operationName userTrace) =
     Inr ''query Q { user { name } }Q''"
  by (simp add: operationSignature_def userTrace_def traceOf_def)

lemma unsigned_rejected:
  "writeTrace sg adapter unsignedTrace = (Inl SignatureFailure, adapter)"
  by (simp add: writeTrace_def operationSignature_def unsignedTrace_def traceOf_def)

lemma uninitialised_rejected:
  "writeTrace (@) None userTrace = (Inl (Error ''Remember to init()''), None)"
  by (simp add: writeTrace_def signature_userTrace client_def)

lemma nodes_dottedTrace:
  "nodesOf (normalizeTraceNode (entry dottedTrace)) =
     [\<lparr>path = [''b.c''], field = ''b.c'', parentType = ''A'', startTime = 0,
         endTime = 1, errors = []\<rparr>,
      \<lparr>path = [''b.d''], field = ''b.d'', parentType = ''A'', startTime = 0,
         endTime = 1, errors = []\<rparr>]"
  by (simp add: map_dottedTrace nodesOf_def flatten_def)

lemma signature_dottedTrace:
  "operationSignature (@) (query dottedTrace) (operationName dottedTrace) =
     Inr ''query Q { x y }Q''"
  by (simp add: operationSignature_def dottedTrace_def traceOf_def)

subsection \<open>The rows of a trace\<close>

text \<open>
  C8, as stated: for every trace, \<^verbatim>\<open>writeTrace\<close> inserts one OperationTrace row and one
  FieldTrace row per node, each with the node's resolved field id. For a trace without a
  query the signature computation fails and nothing is inserted, although the trace has a
  node; before \<^verbatim>\<open>init()\<close> the write fails too. For a trace whose field names have a dot the
  write stores two field rows, and both FieldTrace rows are left without a field id: the map
  has the key \<^verbatim>\<open>A.b\<close> only, and the nodes ask for \<^verbatim>\<open>A.b.c\<close> and \<^verbatim>\<open>A.b.d\<close>.
\<close>

theorem trace_rows_counterexample:
  "length (nodesOf (normalizeTraceNode (entry unsignedTrace))) = 1 \<and>
   writeTrace (@) (Some emptyStore) unsignedTrace = (Inl SignatureFailure, Some emptyStore) \<and>
   operationTraces emptyStore = [] \<and> fieldTraces emptyStore = [] \<and>
   writeTrace (@) None userTrace = (Inl (Error ''Remember to init()''), None) \<and>
   fst (writeTrace (@) (Some emptyStore) dottedTrace) = Inr () \<and>
   map_option fieldRows (snd (writeTrace (@) (Some emptyStore) dottedTrace)) =
     Some [\<lparr>f_id = 1, f_type = ''A'', f_name = ''b''\<rparr>,
           \<lparr>f_id = 2, f_type = ''A'', f_name = ''b''\<rparr>] \<and>
   map_option fieldTraces (snd (writeTrace (@) (Some emptyStore) dottedTrace)) =
     Some [\<lparr>ft_id = 1, ft_path = ''b.c'', ft_fieldId = None, ft_operationTraceId = 1,
            ft_startTime = 0, ft_endTime = 1\<rparr>,
           \<lparr>ft_id = 2, ft_path = ''b.d'', ft_fieldId = None, ft_operationTraceId = 1,
            ft_startTime = 0, ft_endTime = 1\<rparr>]"
proof -
  have n: "length (nodesOf (normalizeTraceNode (entry unsignedTrace))) = 1"
    by (simp add: unsignedTrace_def traceOf_def leafNode_def normalizeTraceNode_def
        normalized_def nodesOf_def flatten_def)
  have e: "operationTraces emptyStore = []" "fieldTraces emptyStore = []"
    by (simp_all add: emptyStore_def)
  have w: "writeTrace (@) (Some emptyStore) dottedTrace =
      (Inr (), Some (writeTraceOn ''query Q { x y }Q'' dottedTrace emptyStore))"
    using signature_dottedTrace by (rule writeTrace_initialised)
  have rows: "fieldRows (writeTraceOn ''query Q { x y }Q'' dottedTrace emptyStore) =
      [\<lparr>f_id = 1, f_type = ''A'', f_name = ''b''\<rparr>, \<lparr>f_id = 2, f_type = ''A'', f_name = ''b''\<rparr>]"
    by (simp add: fieldRows_writeTraceOn resolved_dottedTrace)
  have traces: "fieldTraces (writeTraceOn ''query Q { x y }Q'' dottedTrace emptyStore) =
      [\<lparr>ft_id = 1, ft_path = ''b.c'', ft_fieldId = None, ft_operationTraceId = 1,
            ft_startTime = 0, ft_endTime = 1\<rparr>,
           \<lparr>ft_id = 2, ft_path = ''b.d'', ft_fieldId = None, ft_operationTraceId = 1,
            ft_startTime = 0, ft_endTime = 1\<rparr>]"
    unfolding fieldTraces_writeTraceOn resolved_dottedTrace nodes_dottedTrace
    by (simp add: indexed_def typeField_def emptyStore_def)
  show ?thesis
    unfolding w by (simp add: n e unsigned_rejected uninitialised_rejected rows traces)
qed



subsection \<open>Two traces of one operation\<close>




end
